theory Spec2Isabelle
  imports Complex_Main "HOL-Library.Log_Nat" "HOL-Library.Product_Lexorder" "HOL-Library.Sublist"
begin

section \<open>Data model: the snapshot tables\<close>

text \<open>
  The simulator reads six pandas data frames (\<^verbatim>\<open>data["schedule"]\<close>, \<^verbatim>\<open>data["lines"]\<close>,
  \<^verbatim>\<open>data["capability"]\<close>, \<^verbatim>\<open>data["bom"]\<close>, \<^verbatim>\<open>data["inventory"]\<close>, \<^verbatim>\<open>data["products"]\<close>).
  A data frame is a list of rows, in row order; a row is a record with the columns the
  SQL of the loaders selects.

  A calendar date is its proleptic ordinal (\<^verbatim>\<open>date.toordinal()\<close>): the code only compares
  dates with \<^verbatim>\<open><=\<close> and \<^verbatim>\<open>==\<close> and sorts them. Case quantities and capacities are
  integers (pandas holds the columns as 64-bit integers; sums beyond that range are not
  modelled). \<^verbatim>\<open>qty_per_case\<close> and \<^verbatim>\<open>on_hand_qty\<close> are floating point columns: the material
  check multiplies, compares and subtracts them as IEEE 754 doubles (section
  ``Double precision arithmetic''). A field holds the rational value; a value that is not a
  double stands for the double nearest to it, as the literal \<^verbatim>\<open>0.1\<close> does in Python.
\<close>

type_synonym date = nat
type_synonym line_id = nat
type_synonym product_id = string
type_synonym material_id = nat

record schedule_row =
  s_line_id :: line_id
  prod_date_only :: date
  s_product_id :: product_id
  planned_qty_cases :: int
  is_firm :: bool

record line_row =
  l_line_id :: line_id
  line_name :: string
  daily_capacity_cases :: int

record capability_row =
  c_line_id :: line_id
  c_product_id :: product_id
  rate_cases_per_hour :: rat

record bom_row =
  b_product_id :: product_id
  b_material_id :: material_id
  qty_per_case :: rat
  material_name :: string
  supplier_lead_time_days :: "int option"

record inventory_row =
  i_material_id :: material_id
  on_hand_qty :: "rat option"

record product_row =
  p_product_id :: product_id
  p_product_name :: string

record snapshot =
  schedule :: "schedule_row list"
  lines :: "line_row list"
  capability :: "capability_row list"
  bom :: "bom_row list"
  inventory :: "inventory_row list"
  products :: "product_row list"

section \<open>Results\<close>

datatype source = already_planned | new_plan

text \<open>
  A plan row. \<^verbatim>\<open>main.py\<close> stores \<^verbatim>\<open>str(line_id)\<close> and \<^verbatim>\<open>str(date)\<close> where \<^verbatim>\<open>app.py\<close> stores
  the values themselves; both are the value here (\<^verbatim>\<open>str\<close> is injective on them).
\<close>

record plan_row =
  pr_line_id :: line_id
  pr_production_date :: date
  allocated_cases :: int
  pr_source :: source

text \<open>
  A blocker note. The fixed messages are kept as text; the two formatted messages keep
  the values their f-string renders:
  \<^verbatim>\<open>f"{material_name} short by {shortage:,.0f} (lead {lead}d)"\<close> is \<open>ShortBy\<close> and
  \<^verbatim>\<open>f"Short {int(capacity_shortfall)} cases before {due_date_obj}"\<close> is \<open>ShortCases\<close>.
\<close>

datatype blocker =
  Text string
  | ShortBy string rat "int option"
  | ShortCases int date

datatype status = Full | Partial | No

text \<open>The dictionary \<^verbatim>\<open>simulate_request_core\<close> of \<^verbatim>\<open>main.py\<close> returns, without its
  \<^verbatim>\<open>explanation\<close> text.\<close>

record sim_result =
  sku :: product_id
  product_name :: string
  dc_name :: string
  requested_date :: date
  requested_qty :: int
  status :: status
  covered_qty_on_requested_date :: int
  remaining_qty :: int
  next_available_date :: "date option"
  next_available_additional_qty :: int
  existing_orders_used :: "plan_row list"
  capacity_notes :: "blocker list"
  material_notes :: "blocker list"

text \<open>The dictionary \<^verbatim>\<open>simulate_request\<close> of \<^verbatim>\<open>app.py\<close> returns, without its \<^verbatim>\<open>message\<close> text.\<close>

record app_result =
  can_fulfill :: bool
  allocated_total :: int
  remaining :: int
  plan_rows :: "plan_row list"
  material_blockers :: "blocker list"
  capacity_blockers :: "blocker list"

text \<open>
  \<^verbatim>\<open>pd.to_datetime(s).date()\<close> is pandas' parser, outside the repository: it is a parameter
  \<open>to_datetime\<close> of both simulators, \<open>None\<close> where it raises. The exception is not caught
  anywhere in the two files, so it ends the call.
\<close>

datatype error = DateParseError

section \<open>Double precision arithmetic\<close>

text \<open>
  A Python \<^verbatim>\<open>float\<close> and a \<^verbatim>\<open>float64\<close> column are IEEE 754 binary64: a significand of 53
  bits, the spacing \<open>2^-1074\<close> below \<open>2^-1022\<close>, and every operation rounded to the nearest
  double, a tie going to the even significand. A finite double is the rational it denotes.
  The exponent is not bounded above here: a result of magnitude \<open>2^1024\<close> or more, which
  binary64 turns into an infinity, is not modelled, and neither are infinities, NaN and the
  sign of zero.
\<close>

text \<open>Rounding to the nearest integer, a tie to the even one.\<close>

definition round_half_even :: "rat \<Rightarrow> int" where
  "round_half_even y =
     (let f = \<lfloor>y\<rfloor>; d = y - of_int f
      in if d < 1 / 2 then f
         else if 1 / 2 < d then f + 1
         else if even f then f else f + 1)"

text \<open>The smallest positive double is \<open>2^-1074\<close>; every double is a multiple of it.\<close>

definition subnormal_exp :: nat where
  "subnormal_exp = 1074"

text \<open>The spacing of the doubles around \<open>x \<ge> 0\<close> is \<open>2^ulp_exp x\<close> times the smallest
  positive double: with \<open>x\<close> counted in units of \<open>2^-1074\<close>, the integer part keeps 53 bits.\<close>

definition ulp_exp :: "rat \<Rightarrow> nat" where
  "ulp_exp x = nat (bitlen \<lfloor>x * 2 ^ subnormal_exp\<rfloor> - 53)"

definition round_magnitude :: "rat \<Rightarrow> rat" where
  "round_magnitude x =
     of_int (round_half_even (x * 2 ^ subnormal_exp / 2 ^ ulp_exp x)) * 2 ^ ulp_exp x
       / 2 ^ subnormal_exp"

text \<open>\<^verbatim>\<open>float(v)\<close>, and the coercion of a table value to \<^verbatim>\<open>float64\<close>: the nearest double.
  It leaves a double unchanged (\<open>to_float64_idem\<close> below).\<close>

definition to_float64 :: "rat \<Rightarrow> rat" where
  "to_float64 x = (if x < 0 then - round_magnitude (- x) else round_magnitude x)"

text \<open>The integer operand of a \<^verbatim>\<open>float64\<close> product is converted first; \<^verbatim>\<open>*\<close> and \<^verbatim>\<open>-\<close> on
  doubles round their exact result.\<close>

definition float64_of_int :: "int \<Rightarrow> rat" where
  "float64_of_int n = to_float64 (of_int n)"

definition float64_mul :: "rat \<Rightarrow> rat \<Rightarrow> rat" where
  "float64_mul x y = to_float64 (x * y)"

definition float64_sub :: "rat \<Rightarrow> rat \<Rightarrow> rat" where
  "float64_sub x y = to_float64 (x - y)"

section \<open>pandas operations\<close>

text \<open>\<^verbatim>\<open>Series.unique()\<close>: the distinct values in order of first appearance.\<close>

fun unique :: "'a list \<Rightarrow> 'a list" where
  "unique [] = []"
| "unique (x # xs) = x # unique (filter (\<lambda>y. y \<noteq> x) xs)"

text \<open>
  \<^verbatim>\<open>pd.merge(sku_bom, inventory, on="material_id", how="left")\<close>, reduced to the columns
  read afterwards: every BOM row in order, once for each inventory row of its material,
  or once with a null \<^verbatim>\<open>on_hand_qty\<close> when the inventory has no row for it.
\<close>

definition merge_left :: "bom_row list \<Rightarrow> inventory_row list \<Rightarrow> (bom_row \<times> rat option) list" where
  "merge_left sku_bom inv_df =
     concat (map (\<lambda>b.
       case filter (\<lambda>i. i_material_id i = b_material_id b) inv_df of
         [] \<Rightarrow> [(b, None)]
       | m # ms \<Rightarrow> map (\<lambda>i. (b, on_hand_qty i)) (m # ms)) sku_bom)"

section \<open>main.py: simulate_request_core\<close>

text \<open>Lines 187--191: the window of runs on or before the due date, the runs of the
  requested product among them, and their total.\<close>

definition sched_window_core :: "snapshot \<Rightarrow> date \<Rightarrow> schedule_row list" where
  "sched_window_core data due_date_obj =
     filter (\<lambda>r. prod_date_only r \<le> due_date_obj) (schedule data)"

definition sku_sched_core :: "snapshot \<Rightarrow> product_id \<Rightarrow> date \<Rightarrow> schedule_row list" where
  "sku_sched_core data pid due_date_obj =
     filter (\<lambda>r. s_product_id r = pid) (sched_window_core data due_date_obj)"

definition already_planned_cases_core :: "snapshot \<Rightarrow> product_id \<Rightarrow> date \<Rightarrow> int" where
  "already_planned_cases_core data pid due_date_obj =
     (let sku_sched = sku_sched_core data pid due_date_obj
      in if length sku_sched \<noteq> 0 then sum_list (map planned_qty_cases sku_sched) else 0)"

text \<open>Lines 194--203: one row per run of the product, after \<^verbatim>\<open>sort_values\<close> by
  (date, line id), which keeps rows with equal keys in their order.\<close>

definition covering_rows_core :: "snapshot \<Rightarrow> product_id \<Rightarrow> date \<Rightarrow> plan_row list" where
  "covering_rows_core data pid due_date_obj =
     (let sku_sched = sku_sched_core data pid due_date_obj
      in if length sku_sched \<noteq> 0
         then map (\<lambda>r. \<lparr>pr_line_id = s_line_id r, pr_production_date = prod_date_only r,
                         allocated_cases = planned_qty_cases r, pr_source = already_planned\<rparr>)
                  (sort_key (\<lambda>r. (prod_date_only r, s_line_id r)) sku_sched)
         else [])"

text \<open>Line 235: the lines with a capability row for the product, deduplicated by
  \<^verbatim>\<open>unique()\<close>, in the order the capability table lists them.\<close>

definition capable_lines_core :: "snapshot \<Rightarrow> product_id \<Rightarrow> line_id list" where
  "capable_lines_core data pid =
     unique (map c_line_id (filter (\<lambda>c. c_product_id c = pid) (capability data)))"

text \<open>
  Lines 261--297: the allocation loops. The state is the pair
  (\<^verbatim>\<open>extra_plan_rows\<close>, \<^verbatim>\<open>remaining_capacity_allocation\<close>). \<^verbatim>\<open>break\<close> returns the state,
  \<^verbatim>\<open>continue\<close> goes on with the next line.
\<close>

fun alloc_lines_core ::
  "line_row list \<Rightarrow> schedule_row list \<Rightarrow> date \<Rightarrow> line_id list \<Rightarrow> plan_row list \<times> int \<Rightarrow> plan_row list \<times> int" where
  "alloc_lines_core lines_df sched_window this_date [] (rows, rem) = (rows, rem)"
| "alloc_lines_core lines_df sched_window this_date (lid # rest) (rows, rem) =
     (if rem \<le> 0 then (rows, rem)
      else case filter (\<lambda>l. l_line_id l = lid) lines_df of
        [] \<Rightarrow> alloc_lines_core lines_df sched_window this_date rest (rows, rem)
      | line_info # _ \<Rightarrow>
          let daily_capacity = daily_capacity_cases line_info;
              todays_runs = filter (\<lambda>r. s_line_id r = lid \<and> prod_date_only r = this_date) sched_window;
              total_planned_now =
                (if length todays_runs \<noteq> 0 then sum_list (map planned_qty_cases todays_runs) else 0);
              headroom = max (daily_capacity - total_planned_now) 0
          in if headroom \<le> 0
             then alloc_lines_core lines_df sched_window this_date rest (rows, rem)
             else let allocate_now = min headroom rem
                  in alloc_lines_core lines_df sched_window this_date rest
                       (rows @ [\<lparr>pr_line_id = lid, pr_production_date = this_date,
                                 allocated_cases = allocate_now, pr_source = new_plan\<rparr>],
                        rem - allocate_now))"

fun alloc_dates_core ::
  "line_row list \<Rightarrow> schedule_row list \<Rightarrow> date list \<Rightarrow> line_id list \<Rightarrow> plan_row list \<times> int \<Rightarrow> plan_row list \<times> int" where
  "alloc_dates_core lines_df sched_window [] capable_lines (rows, rem) = (rows, rem)"
| "alloc_dates_core lines_df sched_window (this_date # dates) capable_lines (rows, rem) =
     (if rem \<le> 0 then (rows, rem)
      else alloc_dates_core lines_df sched_window dates capable_lines
             (alloc_lines_core lines_df sched_window this_date capable_lines (rows, rem)))"

text \<open>The loop as line 264 starts it: over the sorted distinct dates of the window,
  from no rows and the whole need.\<close>

definition allocation_core :: "snapshot \<Rightarrow> product_id \<Rightarrow> date \<Rightarrow> int \<Rightarrow> plan_row list \<times> int" where
  "allocation_core data pid due_date_obj need_after_plan =
     (let sched_window = sched_window_core data due_date_obj
      in alloc_dates_core (lines data) sched_window
           (sort (unique (map prod_date_only sched_window)))
           (capable_lines_core data pid) ([], need_after_plan))"

text \<open>
  Lines 303--320: the material check for the newly allocated cases. The column
  \<^verbatim>\<open>needed_qty = qty_per_case * new_capacity_cases\<close> (line 308) is a \<^verbatim>\<open>float64\<close> product, computed
  here for each row of the merged frame; \<^verbatim>\<open>need\<close>, \<^verbatim>\<open>have\<close> and \<^verbatim>\<open>shortage\<close> (lines 311--315)
  are Python floats.
\<close>

fun shortage_notes_core :: "int \<Rightarrow> (bom_row \<times> rat option) list \<Rightarrow> blocker list \<Rightarrow> blocker list" where
  "shortage_notes_core new_capacity_cases [] mat_blockers = mat_blockers"
| "shortage_notes_core new_capacity_cases ((b, on_hand) # merged) mat_blockers =
     (let needed_qty = float64_mul (to_float64 (qty_per_case b)) (float64_of_int new_capacity_cases);
          need = to_float64 needed_qty;
          have = (case on_hand of Some v \<Rightarrow> to_float64 v | None \<Rightarrow> 0);
          lead = supplier_lead_time_days b
      in if need > have
         then shortage_notes_core new_capacity_cases merged
                (mat_blockers @ [ShortBy (material_name b) (float64_sub need have) lead])
         else shortage_notes_core new_capacity_cases merged mat_blockers)"

definition mat_blockers_core :: "snapshot \<Rightarrow> product_id \<Rightarrow> int \<Rightarrow> blocker list" where
  "mat_blockers_core data pid new_capacity_cases =
     (if new_capacity_cases > 0
      then let sku_bom = filter (\<lambda>b. b_product_id b = pid) (bom data)
           in if length sku_bom \<noteq> 0
              then shortage_notes_core new_capacity_cases (merge_left sku_bom (inventory data)) []
              else [Text ''No BOM defined for this SKU'']
      else [])"

text \<open>Lines 159--399.\<close>

definition simulate_request_core ::
  "(string \<Rightarrow> date option) \<Rightarrow> product_id \<Rightarrow> int \<Rightarrow> string \<Rightarrow> string \<Rightarrow> snapshot \<Rightarrow> error + sim_result" where
  "simulate_request_core to_datetime pid requested_qty_cases requested_due_date dc data =
     (case to_datetime requested_due_date of
        None \<Rightarrow> Inl DateParseError
      | Some due_date_obj \<Rightarrow>
     let row_match = filter (\<lambda>p. p_product_id p = pid) (products data);
         pname = (case row_match of [] \<Rightarrow> pid | p # _ \<Rightarrow> p_product_name p);
         already_planned_cases = already_planned_cases_core data pid due_date_obj;
         covering_rows = covering_rows_core data pid due_date_obj
     in if already_planned_cases \<ge> requested_qty_cases
        then Inr \<lparr>sku = pid, product_name = pname, dc_name = dc,
               requested_date = due_date_obj, requested_qty = requested_qty_cases,
               status = Full,
               covered_qty_on_requested_date = requested_qty_cases,
               remaining_qty = 0,
               next_available_date = Some due_date_obj,
               next_available_additional_qty = requested_qty_cases,
               existing_orders_used = covering_rows,
               capacity_notes = [], material_notes = []\<rparr>
        else
     let need_after_plan = requested_qty_cases - already_planned_cases;
         capable_lines = capable_lines_core data pid
     in if capable_lines = []
        then Inr \<lparr>sku = pid, product_name = pname, dc_name = dc,
               requested_date = due_date_obj, requested_qty = requested_qty_cases,
               status = No,
               covered_qty_on_requested_date = already_planned_cases,
               remaining_qty = need_after_plan,
               next_available_date = None,
               next_available_additional_qty = already_planned_cases,
               existing_orders_used = covering_rows,
               capacity_notes = [Text ''No capable line for this SKU''],
               material_notes = []\<rparr>
        else
     let (extra_plan_rows, remaining_capacity_allocation) =
           allocation_core data pid due_date_obj need_after_plan;
         new_capacity_cases = need_after_plan - remaining_capacity_allocation;
         total_possible_capacity = already_planned_cases + new_capacity_cases;
         capacity_shortfall = max (requested_qty_cases - total_possible_capacity) 0;
         mat_blockers = mat_blockers_core data pid new_capacity_cases
     in if capacity_shortfall = 0 \<and> length mat_blockers = 0
        then Inr \<lparr>sku = pid, product_name = pname, dc_name = dc,
               requested_date = due_date_obj, requested_qty = requested_qty_cases,
               status = Full,
               covered_qty_on_requested_date = requested_qty_cases,
               remaining_qty = 0,
               next_available_date = Some due_date_obj,
               next_available_additional_qty = requested_qty_cases,
               existing_orders_used = covering_rows @ extra_plan_rows,
               capacity_notes = [], material_notes = []\<rparr>
        else
     let feasible_new_cases = (if length mat_blockers > 0 then 0 else new_capacity_cases);
         total_feasible = already_planned_cases + feasible_new_cases;
         remaining_after_feasible = max (requested_qty_cases - total_feasible) 0;
         cap_notes = (if capacity_shortfall > 0 then [ShortCases capacity_shortfall due_date_obj] else []);
         partial_rows = covering_rows @
           (if feasible_new_cases > 0 \<and> length mat_blockers = 0 then extra_plan_rows else []);
         status_val = (if total_feasible > 0 then Partial else No)
     in Inr \<lparr>sku = pid, product_name = pname, dc_name = dc,
               requested_date = due_date_obj, requested_qty = requested_qty_cases,
               status = status_val,
               covered_qty_on_requested_date = total_feasible,
               remaining_qty = remaining_after_feasible,
               next_available_date = Some due_date_obj,
               next_available_additional_qty = total_feasible,
               existing_orders_used = partial_rows,
               capacity_notes = cap_notes,
               material_notes = mat_blockers\<rparr>)"

text \<open>Lines 531--545: the handler of \<^verbatim>\<open>POST /simulate_request\<close> (named \<^verbatim>\<open>simulate_request\<close> in
  \<^verbatim>\<open>main.py\<close>). The request body is the pydantic model \<^verbatim>\<open>SimulateIn\<close>, which has no
  validator; the snapshot the handler loads from the database is an argument here.\<close>

record SimulateIn =
  in_sku :: string
  in_qty_requested :: int
  in_requested_date :: string
  in_dc_name :: string

definition simulate_request_api ::
  "(string \<Rightarrow> date option) \<Rightarrow> SimulateIn \<Rightarrow> snapshot \<Rightarrow> error + sim_result" where
  "simulate_request_api to_datetime body data =
     simulate_request_core to_datetime (in_sku body) (in_qty_requested body)
       (in_requested_date body) (in_dc_name body) data"

section \<open>app.py: simulate_request\<close>

text \<open>Lines 341--345.\<close>

definition sched_window_app :: "snapshot \<Rightarrow> date \<Rightarrow> schedule_row list" where
  "sched_window_app data due_date_obj =
     filter (\<lambda>r. prod_date_only r \<le> due_date_obj) (schedule data)"

definition sku_sched_app :: "snapshot \<Rightarrow> product_id \<Rightarrow> date \<Rightarrow> schedule_row list" where
  "sku_sched_app data pid due_date_obj =
     filter (\<lambda>r. s_product_id r = pid) (sched_window_app data due_date_obj)"

definition already_planned_cases_app :: "snapshot \<Rightarrow> product_id \<Rightarrow> date \<Rightarrow> int" where
  "already_planned_cases_app data pid due_date_obj =
     (let sku_sched = sku_sched_app data pid due_date_obj
      in if length sku_sched \<noteq> 0 then sum_list (map planned_qty_cases sku_sched) else 0)"

text \<open>Lines 347--356.\<close>

definition covering_rows_app :: "snapshot \<Rightarrow> product_id \<Rightarrow> date \<Rightarrow> plan_row list" where
  "covering_rows_app data pid due_date_obj =
     (let sku_sched = sku_sched_app data pid due_date_obj
      in if length sku_sched \<noteq> 0
         then map (\<lambda>r. \<lparr>pr_line_id = s_line_id r, pr_production_date = prod_date_only r,
                         allocated_cases = planned_qty_cases r, pr_source = already_planned\<rparr>)
                  (sort_key (\<lambda>r. (prod_date_only r, s_line_id r)) sku_sched)
         else [])"

text \<open>Line 377.\<close>

definition capable_lines_app :: "snapshot \<Rightarrow> product_id \<Rightarrow> line_id list" where
  "capable_lines_app data pid =
     unique (map c_line_id (filter (\<lambda>c. c_product_id c = pid) (capability data)))"

text \<open>Lines 389--424: the allocation loops of \<^verbatim>\<open>app.py\<close>.\<close>

fun alloc_lines_app ::
  "line_row list \<Rightarrow> schedule_row list \<Rightarrow> date \<Rightarrow> line_id list \<Rightarrow> plan_row list \<times> int \<Rightarrow> plan_row list \<times> int" where
  "alloc_lines_app lines_df sched_window this_date [] (rows, rem) = (rows, rem)"
| "alloc_lines_app lines_df sched_window this_date (lid # rest) (rows, rem) =
     (if rem \<le> 0 then (rows, rem)
      else case filter (\<lambda>l. l_line_id l = lid) lines_df of
        [] \<Rightarrow> alloc_lines_app lines_df sched_window this_date rest (rows, rem)
      | line_info # _ \<Rightarrow>
          let daily_capacity = daily_capacity_cases line_info;
              todays_runs = filter (\<lambda>r. s_line_id r = lid \<and> prod_date_only r = this_date) sched_window;
              total_planned_now =
                (if length todays_runs \<noteq> 0 then sum_list (map planned_qty_cases todays_runs) else 0);
              headroom = max (daily_capacity - total_planned_now) 0
          in if headroom \<le> 0
             then alloc_lines_app lines_df sched_window this_date rest (rows, rem)
             else let allocate_now = min headroom rem
                  in alloc_lines_app lines_df sched_window this_date rest
                       (rows @ [\<lparr>pr_line_id = lid, pr_production_date = this_date,
                                 allocated_cases = allocate_now, pr_source = new_plan\<rparr>],
                        rem - allocate_now))"

fun alloc_dates_app ::
  "line_row list \<Rightarrow> schedule_row list \<Rightarrow> date list \<Rightarrow> line_id list \<Rightarrow> plan_row list \<times> int \<Rightarrow> plan_row list \<times> int" where
  "alloc_dates_app lines_df sched_window [] capable_lines (rows, rem) = (rows, rem)"
| "alloc_dates_app lines_df sched_window (this_date # dates) capable_lines (rows, rem) =
     (if rem \<le> 0 then (rows, rem)
      else alloc_dates_app lines_df sched_window dates capable_lines
             (alloc_lines_app lines_df sched_window this_date capable_lines (rows, rem)))"

definition allocation_app :: "snapshot \<Rightarrow> product_id \<Rightarrow> date \<Rightarrow> int \<Rightarrow> plan_row list \<times> int" where
  "allocation_app data pid due_date_obj need_after_plan =
     (let sched_window = sched_window_app data due_date_obj
      in alloc_dates_app (lines data) sched_window
           (sort (unique (map prod_date_only sched_window)))
           (capable_lines_app data pid) ([], need_after_plan))"

text \<open>Lines 431--447: the material check of \<^verbatim>\<open>app.py\<close>, in the same \<^verbatim>\<open>float64\<close> arithmetic
  (\<^verbatim>\<open>needed_qty\<close> on line 435, \<^verbatim>\<open>need\<close>, \<^verbatim>\<open>have\<close> and \<^verbatim>\<open>shortage\<close> on lines 438--442).\<close>

fun shortage_notes_app :: "int \<Rightarrow> (bom_row \<times> rat option) list \<Rightarrow> blocker list \<Rightarrow> blocker list" where
  "shortage_notes_app new_capacity_cases [] mat_blockers = mat_blockers"
| "shortage_notes_app new_capacity_cases ((b, on_hand) # merged) mat_blockers =
     (let needed_qty = float64_mul (to_float64 (qty_per_case b)) (float64_of_int new_capacity_cases);
          need = to_float64 needed_qty;
          have = (case on_hand of Some v \<Rightarrow> to_float64 v | None \<Rightarrow> 0);
          lead = supplier_lead_time_days b
      in if need > have
         then shortage_notes_app new_capacity_cases merged
                (mat_blockers @ [ShortBy (material_name b) (float64_sub need have) lead])
         else shortage_notes_app new_capacity_cases merged mat_blockers)"

definition mat_blockers_app :: "snapshot \<Rightarrow> product_id \<Rightarrow> int \<Rightarrow> blocker list" where
  "mat_blockers_app data pid new_capacity_cases =
     (if new_capacity_cases > 0
      then let sku_bom = filter (\<lambda>b. b_product_id b = pid) (bom data)
           in if length sku_bom \<noteq> 0
              then shortage_notes_app new_capacity_cases (merge_left sku_bom (inventory data)) []
              else [Text ''No BOM for this SKU.'']
      else [])"

text \<open>Lines 323--514.\<close>

definition simulate_request ::
  "(string \<Rightarrow> date option) \<Rightarrow> product_id \<Rightarrow> int \<Rightarrow> string \<Rightarrow> snapshot \<Rightarrow> error + app_result" where
  "simulate_request to_datetime pid extra_cases due_date_str data =
     (case to_datetime due_date_str of
        None \<Rightarrow> Inl DateParseError
      | Some due_date_obj \<Rightarrow>
     let already_planned_cases = already_planned_cases_app data pid due_date_obj;
         covering_rows = covering_rows_app data pid due_date_obj
     in if already_planned_cases \<ge> extra_cases
        then Inr \<lparr>can_fulfill = True, allocated_total = extra_cases, remaining = 0,
               plan_rows = covering_rows, material_blockers = [], capacity_blockers = []\<rparr>
        else
     let need_after_plan = extra_cases - already_planned_cases;
         capable_lines = capable_lines_app data pid
     in if capable_lines = []
        then Inr \<lparr>can_fulfill = False, allocated_total = already_planned_cases,
               remaining = need_after_plan, plan_rows = covering_rows,
               material_blockers = [Text ''No line can run this product''],
               capacity_blockers = [Text ''No capable line found'']\<rparr>
        else
     let (extra_plan_rows, remaining_capacity_allocation) =
           allocation_app data pid due_date_obj need_after_plan;
         new_capacity_cases = need_after_plan - remaining_capacity_allocation;
         total_possible_capacity = already_planned_cases + new_capacity_cases;
         capacity_shortfall = max (extra_cases - total_possible_capacity) 0;
         mat_blockers = mat_blockers_app data pid new_capacity_cases
     in if capacity_shortfall = 0 \<and> length mat_blockers = 0
        then Inr \<lparr>can_fulfill = True, allocated_total = extra_cases, remaining = 0,
               plan_rows = covering_rows @ extra_plan_rows,
               material_blockers = [], capacity_blockers = []\<rparr>
        else
     let feasible_new_cases = (if length mat_blockers > 0 then 0 else new_capacity_cases);
         total_feasible = already_planned_cases + feasible_new_cases;
         remaining_after_feasible = max (extra_cases - total_feasible) 0;
         cap_blockers = (if capacity_shortfall > 0 then [ShortCases capacity_shortfall due_date_obj] else []);
         partial_plan_rows = covering_rows @
           (if feasible_new_cases > 0 \<and> length mat_blockers = 0 then extra_plan_rows else [])
     in Inr \<lparr>can_fulfill = False, allocated_total = total_feasible,
               remaining = remaining_after_feasible, plan_rows = partial_plan_rows,
               material_blockers = mat_blockers, capacity_blockers = cap_blockers\<rparr>)"

section \<open>Intermediate quantities of the two simulators\<close>

text \<open>The local variables of \<^verbatim>\<open>simulate_request_core\<close> after the first two early returns
  (lines 232, 261--301, 304--320, 351--354), as functions of the call's arguments.\<close>

definition need_after_plan_core :: "snapshot \<Rightarrow> product_id \<Rightarrow> date \<Rightarrow> int \<Rightarrow> int" where
  "need_after_plan_core data pid due q = q - already_planned_cases_core data pid due"

definition extra_plan_rows_core :: "snapshot \<Rightarrow> product_id \<Rightarrow> date \<Rightarrow> int \<Rightarrow> plan_row list" where
  "extra_plan_rows_core data pid due q =
     fst (allocation_core data pid due (need_after_plan_core data pid due q))"

definition new_capacity_cases_core :: "snapshot \<Rightarrow> product_id \<Rightarrow> date \<Rightarrow> int \<Rightarrow> int" where
  "new_capacity_cases_core data pid due q =
     need_after_plan_core data pid due q
       - snd (allocation_core data pid due (need_after_plan_core data pid due q))"

definition capacity_shortfall_core :: "snapshot \<Rightarrow> product_id \<Rightarrow> date \<Rightarrow> int \<Rightarrow> int" where
  "capacity_shortfall_core data pid due q =
     max (q - (already_planned_cases_core data pid due + new_capacity_cases_core data pid due q)) 0"

definition material_check_core :: "snapshot \<Rightarrow> product_id \<Rightarrow> date \<Rightarrow> int \<Rightarrow> blocker list" where
  "material_check_core data pid due q =
     mat_blockers_core data pid (new_capacity_cases_core data pid due q)"

definition feasible_new_cases_core :: "snapshot \<Rightarrow> product_id \<Rightarrow> date \<Rightarrow> int \<Rightarrow> int" where
  "feasible_new_cases_core data pid due q =
     (if length (material_check_core data pid due q) > 0 then 0
      else new_capacity_cases_core data pid due q)"

text \<open>The same local variables of \<^verbatim>\<open>simulate_request\<close> in \<^verbatim>\<open>app.py\<close>
  (lines 374, 389--428, 431--447, 470--473).\<close>

definition need_after_plan_app :: "snapshot \<Rightarrow> product_id \<Rightarrow> date \<Rightarrow> int \<Rightarrow> int" where
  "need_after_plan_app data pid due q = q - already_planned_cases_app data pid due"

definition extra_plan_rows_app :: "snapshot \<Rightarrow> product_id \<Rightarrow> date \<Rightarrow> int \<Rightarrow> plan_row list" where
  "extra_plan_rows_app data pid due q =
     fst (allocation_app data pid due (need_after_plan_app data pid due q))"

definition new_capacity_cases_app :: "snapshot \<Rightarrow> product_id \<Rightarrow> date \<Rightarrow> int \<Rightarrow> int" where
  "new_capacity_cases_app data pid due q =
     need_after_plan_app data pid due q
       - snd (allocation_app data pid due (need_after_plan_app data pid due q))"

definition capacity_shortfall_app :: "snapshot \<Rightarrow> product_id \<Rightarrow> date \<Rightarrow> int \<Rightarrow> int" where
  "capacity_shortfall_app data pid due q =
     max (q - (already_planned_cases_app data pid due + new_capacity_cases_app data pid due q)) 0"

definition material_check_app :: "snapshot \<Rightarrow> product_id \<Rightarrow> date \<Rightarrow> int \<Rightarrow> blocker list" where
  "material_check_app data pid due q =
     mat_blockers_app data pid (new_capacity_cases_app data pid due q)"

definition feasible_new_cases_app :: "snapshot \<Rightarrow> product_id \<Rightarrow> date \<Rightarrow> int \<Rightarrow> int" where
  "feasible_new_cases_app data pid due q =
     (if length (material_check_app data pid due q) > 0 then 0
      else new_capacity_cases_app data pid due q)"

section \<open>Notions the properties are stated with\<close>

text \<open>The (date, line id) pair of a plan row.\<close>

definition row_key :: "plan_row \<Rightarrow> date \<times> line_id" where
  "row_key r = (pr_production_date r, pr_line_id r)"

text \<open>The daily capacity the loop reads for a line id: that of the first row of the
  lines table with this id (\<^verbatim>\<open>line_info.iloc[0]\<close>), none when the table has no such row.\<close>

definition line_capacity :: "line_row list \<Rightarrow> line_id \<Rightarrow> int option" where
  "line_capacity lines_df lid =
     (case filter (\<lambda>l. l_line_id l = lid) lines_df of
        [] \<Rightarrow> None
      | line_info # _ \<Rightarrow> Some (daily_capacity_cases line_info))"

text \<open>The cases scheduled on a line and date among the rows \<open>runs\<close>, whatever the product
  and whether the run is firm or not.\<close>

definition scheduled_on :: "schedule_row list \<Rightarrow> line_id \<Rightarrow> date \<Rightarrow> int" where
  "scheduled_on runs lid d =
     sum_list (map planned_qty_cases (filter (\<lambda>r. s_line_id r = lid \<and> prod_date_only r = d) runs))"

text \<open>The headroom of a line on a date over the rows \<open>runs\<close>, and over the whole schedule
  of a snapshot.\<close>

definition headroom_at :: "line_row list \<Rightarrow> schedule_row list \<Rightarrow> date \<Rightarrow> line_id \<Rightarrow> int option" where
  "headroom_at lines_df runs d lid =
     (case line_capacity lines_df lid of
        None \<Rightarrow> None
      | Some daily_capacity \<Rightarrow> Some (max (daily_capacity - scheduled_on runs lid d) 0))"

definition daily_headroom :: "snapshot \<Rightarrow> line_id \<Rightarrow> date \<Rightarrow> int option" where
  "daily_headroom data lid d = headroom_at (lines data) (schedule data) d lid"

text \<open>A (date, line) pair is eligible when the line has a row in the lines table and
  positive headroom on the date; \<open>hr\<close> is that headroom, 0 for a line without a row.\<close>

definition hr :: "line_row list \<Rightarrow> schedule_row list \<Rightarrow> date \<times> line_id \<Rightarrow> int" where
  "hr L W p = (case headroom_at L W (fst p) (snd p) of None \<Rightarrow> 0 | Some h \<Rightarrow> h)"

definition eligible_pairs :: "snapshot \<Rightarrow> product_id \<Rightarrow> date \<Rightarrow> (date \<times> line_id) list" where
  "eligible_pairs data pid due =
     filter (\<lambda>p. 0 < hr (lines data) (sched_window_core data due) p)
       (List.product (sort (unique (map prod_date_only (sched_window_core data due))))
                     (capable_lines_core data pid))"

text \<open>The snapshot with the \<^verbatim>\<open>is_firm\<close> flag of every scheduled run replaced.\<close>

definition set_firm :: "(schedule_row \<Rightarrow> bool) \<Rightarrow> snapshot \<Rightarrow> snapshot" where
  "set_firm g data = data\<lparr>schedule := map (\<lambda>r. r\<lparr>is_firm := g r\<rparr>) (schedule data)\<rparr>"

text \<open>The comparison of the material check for one row of the merged frame, and the note
  it appends: the needed quantity is the \<^verbatim>\<open>float64\<close> product of the quantity per case and the
  newly allocated cases, the quantity on hand is the \<^verbatim>\<open>float\<close> of the inventory value, 0 when
  it is null.\<close>

definition needed_qty :: "int \<Rightarrow> bom_row \<Rightarrow> rat" where
  "needed_qty n b = float64_mul (to_float64 (qty_per_case b)) (float64_of_int n)"

definition on_hand_or_zero :: "rat option \<Rightarrow> rat" where
  "on_hand_or_zero v = (case v of Some x \<Rightarrow> to_float64 x | None \<Rightarrow> 0)"

definition is_short :: "int \<Rightarrow> bom_row \<times> rat option \<Rightarrow> bool" where
  "is_short n m = (needed_qty n (fst m) > on_hand_or_zero (snd m))"

definition shortage_note :: "int \<Rightarrow> bom_row \<times> rat option \<Rightarrow> blocker" where
  "shortage_note n m =
     ShortBy (material_name (fst m))
       (float64_sub (needed_qty n (fst m)) (on_hand_or_zero (snd m)))
       (supplier_lead_time_days (fst m))"

text \<open>No BOM line of the product has a negative quantity per case.\<close>

definition bom_nonneg :: "snapshot \<Rightarrow> product_id \<Rightarrow> bool" where
  "bom_nonneg data pid =
     list_all (\<lambda>b. 0 \<le> qty_per_case b) (filter (\<lambda>b. b_product_id b = pid) (bom data))"

text \<open>A plan row allocates no more than the headroom of its line on its date, over the whole
  schedule of the snapshot.\<close>

definition within_headroom :: "snapshot \<Rightarrow> plan_row \<Rightarrow> bool" where
  "within_headroom data r =
     (case line_capacity (lines data) (pr_line_id r) of
        None \<Rightarrow> False
      | Some daily_capacity \<Rightarrow>
          allocated_cases r
            \<le> max (daily_capacity
                     - scheduled_on (schedule data) (pr_line_id r) (pr_production_date r)) 0)"

text \<open>The row was emitted by the allocation loop.\<close>

definition is_new_plan :: "plan_row \<Rightarrow> bool" where
  "is_new_plan r = (pr_source r = new_plan)"

text \<open>The remaining quantity both simulators return, in closed form (\<open>core_remaining\<close> and
  \<open>app_remaining\<close> below).\<close>

definition remaining_of :: "snapshot \<Rightarrow> product_id \<Rightarrow> date \<Rightarrow> int \<Rightarrow> int" where
  "remaining_of data pid due q =
     (if q \<le> already_planned_cases_core data pid due then 0
      else if capable_lines_core data pid = [] then q - already_planned_cases_core data pid due
      else if material_check_core data pid due q \<noteq> [] then q - already_planned_cases_core data pid due
      else snd (allocation_core data pid due (need_after_plan_core data pid due q)))"

section \<open>The allocation loop as one pass over the (date, line) pairs\<close>

definition new_row :: "date \<times> line_id \<Rightarrow> int \<Rightarrow> plan_row" where
  "new_row p n =
     \<lparr>pr_line_id = snd p, pr_production_date = fst p, allocated_cases = n, pr_source = new_plan\<rparr>"

text \<open>The rows the nested loops emit and the need they leave, without the accumulator;
  \<open>alloc_dates_core_pairs\<close> below proves it is what the loops compute.\<close>

fun alloc_pairs ::
  "line_row list \<Rightarrow> schedule_row list \<Rightarrow> (date \<times> line_id) list \<Rightarrow> int \<Rightarrow> plan_row list \<times> int" where
  "alloc_pairs L W [] rem = ([], rem)"
| "alloc_pairs L W (p # ps) rem =
     (if rem \<le> 0 then ([], rem)
      else if hr L W p \<le> 0 then alloc_pairs L W ps rem
      else (new_row p (min (hr L W p) rem) # fst (alloc_pairs L W ps (rem - min (hr L W p) rem)),
            snd (alloc_pairs L W ps (rem - min (hr L W p) rem))))"

section \<open>Sample inputs\<close>

text \<open>A date parser that knows one date string, 3 November 2025 (ordinal 739558).\<close>

definition sample_to_datetime :: "string \<Rightarrow> date option" where
  "sample_to_datetime s = (if s = ''2025-11-03'' then Some 739558 else None)"

text \<open>Two lines; the capability table lists line 2 before line 1 (and line 2 twice);
  line 1 runs another product on the due date and 100 cases of the product the day before.\<close>

definition sample_data :: snapshot where
  "sample_data =
     \<lparr>schedule =
        [\<lparr>s_line_id = 1, prod_date_only = 739558, s_product_id = ''LEMON_500'',
          planned_qty_cases = 400, is_firm = True\<rparr>,
         \<lparr>s_line_id = 1, prod_date_only = 739557, s_product_id = ''COLA_330'',
          planned_qty_cases = 100, is_firm = False\<rparr>],
      lines =
        [\<lparr>l_line_id = 1, line_name = ''Line 1'', daily_capacity_cases = 1000\<rparr>,
         \<lparr>l_line_id = 2, line_name = ''Line 2'', daily_capacity_cases = 500\<rparr>],
      capability =
        [\<lparr>c_line_id = 2, c_product_id = ''COLA_330'', rate_cases_per_hour = 100\<rparr>,
         \<lparr>c_line_id = 1, c_product_id = ''COLA_330'', rate_cases_per_hour = 120\<rparr>,
         \<lparr>c_line_id = 2, c_product_id = ''COLA_330'', rate_cases_per_hour = 100\<rparr>],
      bom =
        [\<lparr>b_product_id = ''COLA_330'', b_material_id = 1, qty_per_case = 2,
          material_name = ''Sugar'', supplier_lead_time_days = Some 5\<rparr>],
      inventory = [\<lparr>i_material_id = 1, on_hand_qty = Some 100000\<rparr>],
      products = [\<lparr>p_product_id = ''COLA_330'', p_product_name = ''Cola 330ml''\<rparr>]\<rparr>"

text \<open>The same snapshot with 100 units of the material on hand.\<close>

definition sample_data_low_stock :: snapshot where
  "sample_data_low_stock = sample_data\<lparr>inventory := [\<lparr>i_material_id = 1, on_hand_qty = Some 100\<rparr>]\<rparr>"


text \<open>One line with room for 100 cases on the due date; the only BOM line of the product
  has a negative quantity per case (a by-product) and its material a negative stock.\<close>

definition sample_data_negative_bom :: snapshot where
  "sample_data_negative_bom =
     \<lparr>schedule =
        [\<lparr>s_line_id = 1, prod_date_only = 739558, s_product_id = ''LEMON_500'',
          planned_qty_cases = 0, is_firm = False\<rparr>],
      lines = [\<lparr>l_line_id = 1, line_name = ''Line 1'', daily_capacity_cases = 100\<rparr>],
      capability = [\<lparr>c_line_id = 1, c_product_id = ''COLA_330'', rate_cases_per_hour = 100\<rparr>],
      bom =
        [\<lparr>b_product_id = ''COLA_330'', b_material_id = 1, qty_per_case = - 1,
          material_name = ''Sugar'', supplier_lead_time_days = None\<rparr>],
      inventory = [\<lparr>i_material_id = 1, on_hand_qty = Some (- 5)\<rparr>],
      products = [\<lparr>p_product_id = ''COLA_330'', p_product_name = ''Cola 330ml''\<rparr>]\<rparr>"

section \<open>Rounding to a double\<close>


lemma round_half_even_of_int [simp]: "round_half_even (of_int m) = m"
  by (simp add: round_half_even_def)

lemma round_half_even_bounds:
  "of_int (round_half_even y) \<le> y + 1 / 2" "y - 1 / 2 \<le> of_int (round_half_even y)"
  unfolding round_half_even_def Let_def by (auto; linarith)+

lemma round_half_even_mono:
  assumes "x \<le> y"
  shows "round_half_even x \<le> round_half_even y"
proof (cases "\<lfloor>x\<rfloor> = \<lfloor>y\<rfloor>")
  case True
  with assms show ?thesis
    unfolding round_half_even_def Let_def by auto
next
  case False
  with assms have "\<lfloor>x\<rfloor> < \<lfloor>y\<rfloor>" using floor_mono[OF assms] by simp
  then have "\<lfloor>x\<rfloor> + 1 \<le> \<lfloor>y\<rfloor>" by simp
  moreover have "round_half_even x \<le> \<lfloor>x\<rfloor> + 1"
    unfolding round_half_even_def Let_def by auto
  moreover have "\<lfloor>y\<rfloor> \<le> round_half_even y"
    unfolding round_half_even_def Let_def by auto
  ultimately show ?thesis by linarith
qed

lemma round_half_even_le: "y \<le> of_int m \<Longrightarrow> round_half_even y \<le> m"
  using round_half_even_mono[of y "of_int m"] by simp

lemma round_half_even_ge: "of_int m \<le> y \<Longrightarrow> m \<le> round_half_even y"
  using round_half_even_mono[of "of_int m" y] by simp

lemma bitlen_mono: "a \<le> b \<Longrightarrow> bitlen a \<le> bitlen b"
  by (simp add: bitlen_def floorlog_mono nat_mono)

lemma ulp_exp_mono: "x \<le> y \<Longrightarrow> ulp_exp x \<le> ulp_exp y"
proof -
  assume "x \<le> y"
  then have "x * 2 ^ subnormal_exp \<le> y * 2 ^ subnormal_exp" by simp
  then have "\<lfloor>x * 2 ^ subnormal_exp\<rfloor> \<le> \<lfloor>y * 2 ^ subnormal_exp\<rfloor>" by (rule floor_mono)
  then have "bitlen \<lfloor>x * 2 ^ subnormal_exp\<rfloor> \<le> bitlen \<lfloor>y * 2 ^ subnormal_exp\<rfloor>" by (rule bitlen_mono)
  then show ?thesis by (simp add: ulp_exp_def nat_mono)
qed

lemma ulp_exp_upper: "x * 2 ^ subnormal_exp < 2 ^ (53 + ulp_exp x)"
proof -
  let ?z = "\<lfloor>x * 2 ^ subnormal_exp\<rfloor>"
  have "bitlen ?z \<le> int (53 + ulp_exp x)"
    by (simp add: ulp_exp_def)
  then have "?z < 2 ^ nat (int (53 + ulp_exp x))"
    using bitlen_le_iff_power[of ?z "int (53 + ulp_exp x)"] by blast
  then have "?z < 2 ^ (53 + ulp_exp x)"
    by (simp only: nat_int)
  then have "x * 2 ^ subnormal_exp < of_int (2 ^ (53 + ulp_exp x))"
    by (simp only: floor_less_iff)
  then show ?thesis by simp
qed

lemma ulp_exp_lower:
  assumes "0 < ulp_exp x"
  shows "2 ^ (52 + ulp_exp x) \<le> x * 2 ^ subnormal_exp"
proof -
  let ?z = "\<lfloor>x * 2 ^ subnormal_exp\<rfloor>"
  from assms have "int (53 + ulp_exp x) \<le> bitlen ?z"
    by (simp add: ulp_exp_def)
  then have "int (53 + ulp_exp x) \<le> 0 \<or> 2 ^ (nat (int (53 + ulp_exp x)) - 1) \<le> ?z"
    using bitlen_ge_iff_power[of "int (53 + ulp_exp x)" ?z] by blast
  then have "2 ^ (nat (int (53 + ulp_exp x)) - 1) \<le> ?z" by auto
  moreover have "nat (int (53 + ulp_exp x)) - 1 = 52 + ulp_exp x"
    by simp
  ultimately have "(2::int) ^ (52 + ulp_exp x) \<le> ?z" by simp
  then have "of_int ((2::int) ^ (52 + ulp_exp x)) \<le> x * 2 ^ subnormal_exp"
    by (simp only: le_floor_iff)
  then show ?thesis by simp
qed

lemma ulp_exp_eqI:
  assumes "2 ^ (52 + k) \<le> x * 2 ^ subnormal_exp" "x * 2 ^ subnormal_exp < 2 ^ (53 + k)"
  shows "ulp_exp x = k"
proof -
  let ?z = "\<lfloor>x * 2 ^ subnormal_exp\<rfloor>"
  have "of_int ((2::int) ^ (52 + k)) \<le> x * 2 ^ subnormal_exp" using assms(1) by simp
  then have l: "(2::int) ^ (52 + k) \<le> ?z" by (simp only: le_floor_iff)
  have "x * 2 ^ subnormal_exp < of_int ((2::int) ^ (53 + k))" using assms(2) by simp
  then have u: "?z < 2 ^ (53 + k)" by (simp only: floor_less_iff)
  have n: "nat (int (53 + k)) = 53 + k" "nat (int (53 + k)) - 1 = 52 + k"
    by simp_all
  have "bitlen ?z \<le> int (53 + k)"
    using u bitlen_le_iff_power[of ?z "int (53 + k)"] unfolding n by simp
  moreover have "int (53 + k) \<le> bitlen ?z"
    using l bitlen_ge_iff_power[of "int (53 + k)" ?z] unfolding n by simp
  ultimately have "bitlen ?z = int (53 + k)" by simp
  then show ?thesis by (simp add: ulp_exp_def)
qed

lemma ulp_exp_subnormal:
  assumes "x * 2 ^ subnormal_exp < 2 ^ 53"
  shows "ulp_exp x = 0"
proof -
  let ?z = "\<lfloor>x * 2 ^ subnormal_exp\<rfloor>"
  have "x * 2 ^ subnormal_exp < of_int ((2::int) ^ 53)" using assms by simp
  then have "?z < 2 ^ 53" by (simp only: floor_less_iff)
  then have "bitlen ?z \<le> 53"
    using bitlen_le_iff_power[of ?z 53] by simp
  then show ?thesis by (simp add: ulp_exp_def)
qed

lemma round_magnitude_nonneg: "0 \<le> x \<Longrightarrow> 0 \<le> round_magnitude x"
proof -
  assume "0 \<le> x"
  then have "of_int 0 \<le> x * 2 ^ subnormal_exp / 2 ^ ulp_exp x" by simp
  then have "0 \<le> round_half_even (x * 2 ^ subnormal_exp / 2 ^ ulp_exp x)"
    by (rule round_half_even_ge)
  then show ?thesis by (simp add: round_magnitude_def)
qed

lemma round_magnitude_mono:
  assumes "x \<le> y"
  shows "round_magnitude x \<le> round_magnitude y"
proof -
  let ?X = "x * 2 ^ subnormal_exp" and ?Y = "y * 2 ^ subnormal_exp"
  let ?j = "ulp_exp x" and ?k = "ulp_exp y"
  have XY: "?X \<le> ?Y" using assms by simp
  have jk: "?j \<le> ?k" using assms by (rule ulp_exp_mono)
  have "of_int (round_half_even (?X / 2 ^ ?j)) * (2::rat) ^ ?j
      \<le> of_int (round_half_even (?Y / 2 ^ ?k)) * 2 ^ ?k"
  proof (cases "?j = ?k")
    case True
    have "?X / 2 ^ ?k \<le> ?Y / 2 ^ ?k" using XY by (simp add: divide_right_mono)
    then have "round_half_even (?X / 2 ^ ?k) \<le> round_half_even (?Y / 2 ^ ?k)"
      by (rule round_half_even_mono)
    then show ?thesis unfolding True by simp
  next
    case False
    with jk have lt: "?j < ?k" by simp
    then have kpos: "0 < ?k" by simp
    have "?X / 2 ^ ?j \<le> of_int ((2::int) ^ 53)"
      using ulp_exp_upper[of x] by (simp add: power_add field_simps)
    then have "round_half_even (?X / 2 ^ ?j) \<le> 2 ^ 53" by (rule round_half_even_le)
    then have "(of_int (round_half_even (?X / 2 ^ ?j)) :: rat) \<le> of_int (2 ^ 53)"
      by (simp only: of_int_le_iff)
    then have "of_int (round_half_even (?X / 2 ^ ?j)) * (2::rat) ^ ?j \<le> 2 ^ 53 * 2 ^ ?j"
      by simp
    also have "\<dots> = 2 ^ (53 + ?j)" by (simp add: power_add)
    also have "\<dots> \<le> (2::rat) ^ (52 + ?k)" using lt by (intro power_increasing) simp_all
    also have "\<dots> = 2 ^ 52 * 2 ^ ?k" by (simp add: power_add)
    also have "\<dots> \<le> of_int (round_half_even (?Y / 2 ^ ?k)) * 2 ^ ?k"
    proof -
      have "of_int ((2::int) ^ 52) \<le> ?Y / 2 ^ ?k"
        using ulp_exp_lower[OF kpos] by (simp add: power_add field_simps)
      then have "2 ^ 52 \<le> round_half_even (?Y / 2 ^ ?k)" by (rule round_half_even_ge)
      then have "(of_int (2 ^ 52) :: rat) \<le> of_int (round_half_even (?Y / 2 ^ ?k))"
        by (simp only: of_int_le_iff)
      then show ?thesis by simp
    qed
    finally show ?thesis .
  qed
  then show ?thesis
    by (simp add: round_magnitude_def divide_right_mono)
qed

lemma to_float64_mono:
  assumes "x \<le> y"
  shows "to_float64 x \<le> to_float64 y"
proof -
  consider "x < 0" "y < 0" | "x < 0" "0 \<le> y" | "0 \<le> x" "0 \<le> y"
    using assms by linarith
  then show ?thesis
  proof cases
    case 1
    from assms have "round_magnitude (- y) \<le> round_magnitude (- x)"
      by (intro round_magnitude_mono) simp
    with 1 show ?thesis by (simp add: to_float64_def)
  next
    case 2
    have "0 \<le> round_magnitude (- x)" "0 \<le> round_magnitude y"
      using 2 by (simp_all add: round_magnitude_nonneg)
    with 2 show ?thesis by (simp add: to_float64_def)
  next
    case 3
    with assms round_magnitude_mono[OF assms] show ?thesis by (simp add: to_float64_def)
  qed
qed

lemma to_float64_nonneg: "0 \<le> x \<Longrightarrow> 0 \<le> to_float64 x"
  by (simp add: to_float64_def round_magnitude_nonneg)

lemma round_magnitude_fixed:
  assumes "x * 2 ^ subnormal_exp / 2 ^ ulp_exp x = of_int n"
  shows "round_magnitude x = x"
proof -
  have "round_magnitude x = of_int n * 2 ^ ulp_exp x / 2 ^ subnormal_exp"
    by (simp add: round_magnitude_def assms)
  also have "of_int n * 2 ^ ulp_exp x = x * 2 ^ subnormal_exp"
    using assms by (simp add: field_simps)
  finally show ?thesis by simp
qed

lemma round_magnitude_grid:
  assumes "x * 2 ^ subnormal_exp = of_int r * 2 ^ k" "0 \<le> r" "r < 2 ^ 53"
  shows "round_magnitude x = x"
proof -
  have le: "ulp_exp x \<le> k"
  proof (cases "0 < ulp_exp x")
    case True
    have "(2::rat) ^ (52 + ulp_exp x) \<le> of_int r * 2 ^ k"
      using ulp_exp_lower[OF True] assms(1) by simp
    also have "of_int r * (2::rat) ^ k < of_int (2 ^ 53) * 2 ^ k"
      using assms(3) by (intro mult_strict_right_mono) (simp_all only: of_int_less_iff zero_less_power zero_less_numeral)
    also have "\<dots> = 2 ^ (53 + k)" by (simp add: power_add)
    finally have "52 + ulp_exp x < 53 + k"
      by (simp only: power_strict_increasing_iff one_less_numeral_iff semiring_norm)
    then show ?thesis by simp
  next
    case False
    then show ?thesis by simp
  qed
  then obtain d where d: "k = ulp_exp x + d" by (auto simp: le_iff_add)
  have "x * 2 ^ subnormal_exp / 2 ^ ulp_exp x = of_int (r * 2 ^ d)"
    unfolding assms(1) d by (simp add: power_add)
  then show ?thesis by (rule round_magnitude_fixed)
qed

lemma round_magnitude_power:
  assumes "x * 2 ^ subnormal_exp = 2 ^ (53 + k)"
  shows "round_magnitude x = x"
proof -
  have "ulp_exp x = Suc k"
    by (rule ulp_exp_eqI) (simp_all add: assms)
  then have "x * 2 ^ subnormal_exp / 2 ^ ulp_exp x = of_int (2 ^ 52)"
    by (simp add: assms power_add)
  then show ?thesis by (rule round_magnitude_fixed)
qed

lemma round_magnitude_idem:
  assumes "0 \<le> x"
  shows "round_magnitude (round_magnitude x) = round_magnitude x"
proof -
  let ?k = "ulp_exp x"
  let ?r = "round_half_even (x * 2 ^ subnormal_exp / 2 ^ ?k)"
  have y: "round_magnitude x * 2 ^ subnormal_exp = of_int ?r * 2 ^ ?k"
    by (simp add: round_magnitude_def)
  have "of_int 0 \<le> x * 2 ^ subnormal_exp / 2 ^ ?k" using assms by simp
  then have r0: "0 \<le> ?r" by (rule round_half_even_ge)
  have "x * 2 ^ subnormal_exp / 2 ^ ?k \<le> of_int ((2::int) ^ 53)"
    using ulp_exp_upper[of x] by (simp add: power_add field_simps)
  then have r1: "?r \<le> 2 ^ 53" by (rule round_half_even_le)
  show ?thesis
  proof (cases "?r = 2 ^ 53")
    case True
    have "round_magnitude x * 2 ^ subnormal_exp = 2 ^ (53 + ?k)"
      unfolding y True by (simp add: power_add)
    then show ?thesis by (rule round_magnitude_power)
  next
    case False
    with r1 have "?r < 2 ^ 53" by simp
    from round_magnitude_grid[OF y r0 this] show ?thesis .
  qed
qed

lemma round_magnitude_zero [simp]: "round_magnitude 0 = 0"
  by (rule round_magnitude_fixed[where n = 0]) simp

lemma to_float64_idem: "to_float64 (to_float64 x) = to_float64 x"
proof (cases "x < 0")
  case True
  then have nn: "0 \<le> round_magnitude (- x)" by (simp add: round_magnitude_nonneg)
  show ?thesis
  proof (cases "round_magnitude (- x) = 0")
    case True
    with \<open>x < 0\<close> show ?thesis by (simp add: to_float64_def)
  next
    case False
    with nn have "0 < round_magnitude (- x)" by simp
    with \<open>x < 0\<close> show ?thesis
      using round_magnitude_idem[of "- x"] by (simp add: to_float64_def)
  qed
next
  case False
  then have "0 \<le> x" by simp
  then show ?thesis
    using round_magnitude_idem[of x] round_magnitude_nonneg[of x]
    by (simp add: to_float64_def)
qed

lemma round_magnitude_exact:
  assumes "0 \<le> m" "m < 2 ^ 53" "j \<le> subnormal_exp"
  shows "round_magnitude (of_int m / 2 ^ j) = of_int m / 2 ^ j"
proof -
  from assms(3) obtain d where d: "subnormal_exp = j + d" by (auto simp: le_iff_add)
  have "of_int m / 2 ^ j * 2 ^ subnormal_exp = of_int m * (2::rat) ^ d"
    unfolding d by (simp add: power_add)
  from round_magnitude_grid[OF this assms(1,2)] show ?thesis .
qed

lemma to_float64_exact:
  assumes "\<bar>m\<bar> < 2 ^ 53" "j \<le> subnormal_exp"
  shows "to_float64 (of_int m / 2 ^ j) = of_int m / 2 ^ j"
proof (cases "m < 0")
  case True
  then have "(of_int m :: rat) / 2 ^ j < 0" by (simp add: divide_neg_pos)
  moreover have "round_magnitude (of_int (- m) / 2 ^ j) = of_int (- m) / 2 ^ j"
    using True assms by (intro round_magnitude_exact) simp_all
  ultimately show ?thesis by (simp add: to_float64_def)
next
  case False
  then have "\<not> (of_int m :: rat) / 2 ^ j < 0" by (simp add: not_less)
  moreover have "round_magnitude (of_int m / 2 ^ j) = of_int m / 2 ^ j"
    using False assms by (intro round_magnitude_exact) simp_all
  ultimately show ?thesis by (simp add: to_float64_def)
qed

lemma to_float64_of_int: "\<bar>m\<bar> < 2 ^ 53 \<Longrightarrow> to_float64 (of_int m) = of_int m"
  using to_float64_exact[of m 0] by simp


lemma to_float64_numeral:
  "numeral n < (2::int) ^ 53 \<Longrightarrow> to_float64 (numeral n) = numeral n"
  using to_float64_of_int[of "numeral n"] by simp

lemma to_float64_neg_numeral:
  "numeral n < (2::int) ^ 53 \<Longrightarrow> to_float64 (- numeral n) = - numeral n"
  using to_float64_of_int[of "- numeral n"] by simp

lemma to_float64_zero: "to_float64 0 = 0"
  using to_float64_of_int[of 0] by simp

lemma to_float64_one: "to_float64 1 = 1"
  using to_float64_of_int[of 1] by simp

lemma to_float64_neg_one: "to_float64 (- 1) = - 1"
  using to_float64_of_int[of "- 1"] by simp


lemma to_float64_needed_qty: "to_float64 (needed_qty n b) = needed_qty n b"
  by (simp add: needed_qty_def float64_mul_def to_float64_idem)

lemmas float64_eval =
  needed_qty_def float64_of_int_def float64_mul_def float64_sub_def
  to_float64_numeral to_float64_neg_numeral to_float64_zero to_float64_one to_float64_neg_one

section \<open>The allocation loops of the two files\<close>

lemma alloc_lines_app_core: "alloc_lines_app L W d ls st = alloc_lines_core L W d ls st"
  by (induction L W d ls st rule: alloc_lines_core.induct) (auto simp: Let_def split: list.splits)

lemma alloc_dates_app_core: "alloc_dates_app L W ds cl st = alloc_dates_core L W ds cl st"
  by (induction L W ds cl st rule: alloc_dates_core.induct) (auto simp: alloc_lines_app_core)

lemma shortage_notes_app_core: "shortage_notes_app n ms acc = shortage_notes_core n ms acc"
  by (induction n ms acc rule: shortage_notes_core.induct) (auto simp: Let_def)

lemma alloc_pairs_done: "rem \<le> 0 \<Longrightarrow> alloc_pairs L W ps rem = ([], rem)"
  by (cases ps) auto

lemma alloc_pairs_append:
  "alloc_pairs L W (ps @ qs) rem =
     (fst (alloc_pairs L W ps rem) @ fst (alloc_pairs L W qs (snd (alloc_pairs L W ps rem))),
      snd (alloc_pairs L W qs (snd (alloc_pairs L W ps rem))))"
  by (induction ps arbitrary: rem) (auto simp: alloc_pairs_done)

lemma alloc_lines_core_pairs:
  "alloc_lines_core L W d ls (rows, rem) =
     (rows @ fst (alloc_pairs L W (map (Pair d) ls) rem), snd (alloc_pairs L W (map (Pair d) ls) rem))"
  by (induction L W d ls "(rows, rem)" arbitrary: rows rem rule: alloc_lines_core.induct)
     (auto simp: Let_def hr_def headroom_at_def line_capacity_def scheduled_on_def new_row_def split: list.splits)

lemma alloc_dates_core_pairs:
  "alloc_dates_core L W ds cl (rows, rem) =
     (rows @ fst (alloc_pairs L W (List.product ds cl) rem), snd (alloc_pairs L W (List.product ds cl) rem))"
  by (induction L W ds cl "(rows, rem)" arbitrary: rows rem rule: alloc_dates_core.induct)
     (auto simp: alloc_lines_core_pairs alloc_pairs_append alloc_pairs_done)

lemma unique_set: "set (unique xs) = set xs"
  by (induction xs rule: unique.induct) auto

lemma unique_distinct: "distinct (unique xs)"
  by (induction xs rule: unique.induct) (auto simp: unique_set)

lemma alloc_pairs_bounds:
  "0 \<le> rem \<Longrightarrow> 0 \<le> snd (alloc_pairs L W ps rem) \<and> snd (alloc_pairs L W ps rem) \<le> rem"
proof (induction ps arbitrary: rem)
  case Nil
  then show ?case by simp
next
  case (Cons p ps)
  have "0 \<le> rem - min (hr L W p) rem" by simp
  from Cons.IH[OF this] Cons.IH[OF Cons.prems] Cons.prems show ?case
    by (auto simp: min_def split: if_splits)
qed

lemma alloc_pairs_rows:
  "r \<in> set (fst (alloc_pairs L W ps rem)) \<Longrightarrow>
     pr_source r = new_plan \<and> 0 < allocated_cases r \<and> allocated_cases r \<le> hr L W (row_key r)
     \<and> row_key r \<in> set ps"
proof (induction ps arbitrary: rem)
  case Nil
  then show ?case by simp
next
  case (Cons p ps)
  then show ?case
    by (auto simp: new_row_def row_key_def split: if_splits)
qed

lemma alloc_pairs_prefix:
  "prefix (map row_key (fst (alloc_pairs L W ps rem))) (filter (\<lambda>p. 0 < hr L W p) ps)"
  by (induction ps arbitrary: rem) (auto simp: new_row_def row_key_def)

lemma alloc_pairs_sum:
  "sum_list (map allocated_cases (fst (alloc_pairs L W ps rem))) = rem - snd (alloc_pairs L W ps rem)"
  by (induction ps arbitrary: rem) (auto simp: new_row_def)

lemma alloc_pairs_mono:
  "rem1 \<le> rem2 \<Longrightarrow>
     snd (alloc_pairs L W ps rem1) \<le> snd (alloc_pairs L W ps rem2)
     \<and> rem1 - snd (alloc_pairs L W ps rem1) \<le> rem2 - snd (alloc_pairs L W ps rem2)"
proof (induction ps arbitrary: rem1 rem2)
  case Nil
  then show ?case by simp
next
  case (Cons p ps)
  show ?case
  proof (cases "rem1 \<le> 0")
    case True
    show ?thesis
    proof (cases "rem2 \<le> 0")
      case True
      with \<open>rem1 \<le> 0\<close> Cons.prems show ?thesis by simp
    next
      case False
      then have "0 \<le> rem2" by simp
      from alloc_pairs_bounds[OF this, of L W "p # ps"] True show ?thesis
        by simp
    qed
  next
    case False
    with Cons.prems have pos: "0 < rem1" "0 < rem2" by auto
    show ?thesis
    proof (cases "hr L W p \<le> 0")
      case True
      with pos Cons.IH[OF Cons.prems] show ?thesis by simp
    next
      case False
      let ?h = "hr L W p"
      have le: "rem1 - min ?h rem1 \<le> rem2 - min ?h rem2" using Cons.prems by (simp add: min_def)
      have le2: "min ?h rem1 \<le> min ?h rem2" using Cons.prems by simp
      have s1: "snd (alloc_pairs L W (p # ps) rem1) = snd (alloc_pairs L W ps (rem1 - min ?h rem1))"
        using False pos by simp
      have s2: "snd (alloc_pairs L W (p # ps) rem2) = snd (alloc_pairs L W ps (rem2 - min ?h rem2))"
        using False pos by simp
      show ?thesis unfolding s1 s2 using Cons.IH[OF le] le2 by linarith
    qed
  qed
qed

lemma alloc_pairs_exhaust:
  "0 < snd (alloc_pairs L W ps rem) \<Longrightarrow>
     map row_key (fst (alloc_pairs L W ps rem)) = filter (\<lambda>p. 0 < hr L W p) ps"
  by (induction ps arbitrary: rem) (auto simp: new_row_def row_key_def split: if_splits)

section \<open>The two files compute the same intermediate quantities\<close>

lemma allocation_core_pairs:
  "allocation_core data pid due need =
     alloc_pairs (lines data) (sched_window_core data due)
       (List.product (sort (unique (map prod_date_only (sched_window_core data due))))
                     (capable_lines_core data pid)) need"
  by (simp add: allocation_core_def Let_def alloc_dates_core_pairs)

lemma sched_window_app_core: "sched_window_app data due = sched_window_core data due"
  by (simp add: sched_window_app_def sched_window_core_def)

lemma already_planned_app_core:
  "already_planned_cases_app data pid due = already_planned_cases_core data pid due"
  by (simp add: already_planned_cases_app_def already_planned_cases_core_def
      sku_sched_app_def sku_sched_core_def sched_window_app_core)

lemma covering_rows_app_core: "covering_rows_app data pid due = covering_rows_core data pid due"
  by (simp add: covering_rows_app_def covering_rows_core_def
      sku_sched_app_def sku_sched_core_def sched_window_app_core)

lemma capable_lines_app_core: "capable_lines_app data pid = capable_lines_core data pid"
  by (simp add: capable_lines_app_def capable_lines_core_def)

lemma allocation_app_core: "allocation_app data pid due need = allocation_core data pid due need"
  by (simp add: allocation_app_def allocation_core_def sched_window_app_core
      capable_lines_app_core alloc_dates_app_core)

lemma need_after_plan_app_core: "need_after_plan_app data pid due q = need_after_plan_core data pid due q"
  by (simp add: need_after_plan_app_def need_after_plan_core_def already_planned_app_core)

lemma extra_plan_rows_app_core: "extra_plan_rows_app data pid due q = extra_plan_rows_core data pid due q"
  by (simp add: extra_plan_rows_app_def extra_plan_rows_core_def need_after_plan_app_core allocation_app_core)

lemma new_capacity_cases_app_core:
  "new_capacity_cases_app data pid due q = new_capacity_cases_core data pid due q"
  by (simp add: new_capacity_cases_app_def new_capacity_cases_core_def need_after_plan_app_core
      allocation_app_core)

lemma capacity_shortfall_app_core:
  "capacity_shortfall_app data pid due q = capacity_shortfall_core data pid due q"
  by (simp add: capacity_shortfall_app_def capacity_shortfall_core_def already_planned_app_core
      new_capacity_cases_app_core)

lemma mat_blockers_app_empty:
  "mat_blockers_app data pid n = [] \<longleftrightarrow> mat_blockers_core data pid n = []"
  by (simp add: mat_blockers_app_def mat_blockers_core_def shortage_notes_app_core Let_def)

lemma mat_blockers_app_length:
  "length (mat_blockers_app data pid n) = length (mat_blockers_core data pid n)"
  by (simp add: mat_blockers_app_def mat_blockers_core_def shortage_notes_app_core Let_def)

lemma material_check_app_length:
  "length (material_check_app data pid due q) = length (material_check_core data pid due q)"
  by (simp add: material_check_app_def material_check_core_def mat_blockers_app_length
      new_capacity_cases_app_core)

lemma feasible_new_cases_app_core:
  "feasible_new_cases_app data pid due q = feasible_new_cases_core data pid due q"
  by (simp add: feasible_new_cases_app_def feasible_new_cases_core_def material_check_app_length
      new_capacity_cases_app_core)

subsection \<open>The four branches of \<^verbatim>\<open>simulate_request_core\<close>\<close>

lemma core_parse_fail:
  "to_datetime s = None \<Longrightarrow> simulate_request_core to_datetime pid q s dc data = Inl DateParseError"
  by (simp add: simulate_request_core_def)

lemma core_branch_A:
  assumes "to_datetime s = Some due" "q \<le> already_planned_cases_core data pid due"
  shows "\<exists>res. simulate_request_core to_datetime pid q s dc data = Inr res
     \<and> requested_qty res = q
     \<and> status res = Full \<and> covered_qty_on_requested_date res = q \<and> remaining_qty res = 0
     \<and> existing_orders_used res = covering_rows_core data pid due
     \<and> capacity_notes res = [] \<and> material_notes res = []"
  using assms by (simp add: simulate_request_core_def Let_def)

lemma core_branch_B:
  assumes "to_datetime s = Some due" "\<not> q \<le> already_planned_cases_core data pid due"
    "capable_lines_core data pid = []"
  shows "\<exists>res. simulate_request_core to_datetime pid q s dc data = Inr res
     \<and> requested_qty res = q
     \<and> status res = No
     \<and> covered_qty_on_requested_date res = already_planned_cases_core data pid due
     \<and> remaining_qty res = q - already_planned_cases_core data pid due
     \<and> existing_orders_used res = covering_rows_core data pid due
     \<and> capacity_notes res = [Text ''No capable line for this SKU''] \<and> material_notes res = []"
  using assms by (simp add: simulate_request_core_def Let_def)

lemma core_branch_C:
  assumes "to_datetime s = Some due" "\<not> q \<le> already_planned_cases_core data pid due"
    "capable_lines_core data pid \<noteq> []"
    "capacity_shortfall_core data pid due q = 0" "material_check_core data pid due q = []"
  shows "\<exists>res. simulate_request_core to_datetime pid q s dc data = Inr res
     \<and> requested_qty res = q
     \<and> status res = Full \<and> covered_qty_on_requested_date res = q \<and> remaining_qty res = 0
     \<and> existing_orders_used res = covering_rows_core data pid due @ extra_plan_rows_core data pid due q
     \<and> capacity_notes res = [] \<and> material_notes res = []"
  using assms
  by (simp add: simulate_request_core_def Let_def split_beta capacity_shortfall_core_def
      material_check_core_def new_capacity_cases_core_def need_after_plan_core_def
      extra_plan_rows_core_def)

lemma core_branch_D:
  assumes "to_datetime s = Some due" "\<not> q \<le> already_planned_cases_core data pid due"
    "capable_lines_core data pid \<noteq> []"
    "\<not> (capacity_shortfall_core data pid due q = 0 \<and> material_check_core data pid due q = [])"
  shows "\<exists>res. simulate_request_core to_datetime pid q s dc data = Inr res
     \<and> requested_qty res = q
     \<and> status res = (if already_planned_cases_core data pid due + feasible_new_cases_core data pid due q > 0
                      then Partial else No)
     \<and> covered_qty_on_requested_date res
         = already_planned_cases_core data pid due + feasible_new_cases_core data pid due q
     \<and> remaining_qty res
         = max (q - (already_planned_cases_core data pid due + feasible_new_cases_core data pid due q)) 0
     \<and> existing_orders_used res = covering_rows_core data pid due @
         (if feasible_new_cases_core data pid due q > 0 \<and> material_check_core data pid due q = []
          then extra_plan_rows_core data pid due q else [])
     \<and> capacity_notes res = (if capacity_shortfall_core data pid due q > 0
                              then [ShortCases (capacity_shortfall_core data pid due q) due] else [])
     \<and> material_notes res = material_check_core data pid due q"
  using assms
  by (simp add: simulate_request_core_def Let_def split_beta capacity_shortfall_core_def
      material_check_core_def new_capacity_cases_core_def need_after_plan_core_def
      extra_plan_rows_core_def feasible_new_cases_core_def)

subsection \<open>The four branches of \<^verbatim>\<open>simulate_request\<close> in \<^verbatim>\<open>app.py\<close>\<close>

lemma app_parse_fail:
  "to_datetime s = None \<Longrightarrow> simulate_request to_datetime pid q s data = Inl DateParseError"
  by (simp add: simulate_request_def)

lemma app_branch_A:
  assumes "to_datetime s = Some due" "q \<le> already_planned_cases_app data pid due"
  shows "\<exists>res. simulate_request to_datetime pid q s data = Inr res
     \<and> can_fulfill res \<and> allocated_total res = q \<and> remaining res = 0
     \<and> plan_rows res = covering_rows_app data pid due
     \<and> capacity_blockers res = [] \<and> material_blockers res = []"
  using assms by (simp add: simulate_request_def Let_def)

lemma app_branch_B:
  assumes "to_datetime s = Some due" "\<not> q \<le> already_planned_cases_app data pid due"
    "capable_lines_app data pid = []"
  shows "\<exists>res. simulate_request to_datetime pid q s data = Inr res
     \<and> \<not> can_fulfill res
     \<and> allocated_total res = already_planned_cases_app data pid due
     \<and> remaining res = q - already_planned_cases_app data pid due
     \<and> plan_rows res = covering_rows_app data pid due
     \<and> capacity_blockers res = [Text ''No capable line found'']
     \<and> material_blockers res = [Text ''No line can run this product'']"
  using assms by (simp add: simulate_request_def Let_def)

lemma app_branch_C:
  assumes "to_datetime s = Some due" "\<not> q \<le> already_planned_cases_app data pid due"
    "capable_lines_app data pid \<noteq> []"
    "capacity_shortfall_app data pid due q = 0" "material_check_app data pid due q = []"
  shows "\<exists>res. simulate_request to_datetime pid q s data = Inr res
     \<and> can_fulfill res \<and> allocated_total res = q \<and> remaining res = 0
     \<and> plan_rows res = covering_rows_app data pid due @ extra_plan_rows_app data pid due q
     \<and> capacity_blockers res = [] \<and> material_blockers res = []"
  using assms
  by (simp add: simulate_request_def Let_def split_beta capacity_shortfall_app_def
      material_check_app_def new_capacity_cases_app_def need_after_plan_app_def
      extra_plan_rows_app_def)

lemma app_branch_D:
  assumes "to_datetime s = Some due" "\<not> q \<le> already_planned_cases_app data pid due"
    "capable_lines_app data pid \<noteq> []"
    "\<not> (capacity_shortfall_app data pid due q = 0 \<and> material_check_app data pid due q = [])"
  shows "\<exists>res. simulate_request to_datetime pid q s data = Inr res
     \<and> \<not> can_fulfill res
     \<and> allocated_total res
         = already_planned_cases_app data pid due + feasible_new_cases_app data pid due q
     \<and> remaining res
         = max (q - (already_planned_cases_app data pid due + feasible_new_cases_app data pid due q)) 0
     \<and> plan_rows res = covering_rows_app data pid due @
         (if feasible_new_cases_app data pid due q > 0 \<and> material_check_app data pid due q = []
          then extra_plan_rows_app data pid due q else [])
     \<and> capacity_blockers res = (if capacity_shortfall_app data pid due q > 0
                              then [ShortCases (capacity_shortfall_app data pid due q) due] else [])
     \<and> material_blockers res = material_check_app data pid due q"
  using assms
  by (simp add: simulate_request_def Let_def split_beta capacity_shortfall_app_def
      material_check_app_def new_capacity_cases_app_def need_after_plan_app_def
      extra_plan_rows_app_def feasible_new_cases_app_def)

lemma new_capacity_cases_core_bounds:
  assumes "\<not> q \<le> already_planned_cases_core data pid due"
  shows "0 \<le> new_capacity_cases_core data pid due q
     \<and> new_capacity_cases_core data pid due q \<le> q - already_planned_cases_core data pid due"
proof -
  have "0 \<le> need_after_plan_core data pid due q"
    using assms by (simp add: need_after_plan_core_def)
  from alloc_pairs_bounds[OF this] show ?thesis
    by (simp add: new_capacity_cases_core_def allocation_core_pairs need_after_plan_core_def)
qed

lemma feasible_new_cases_core_bounds:
  assumes "\<not> q \<le> already_planned_cases_core data pid due"
  shows "0 \<le> feasible_new_cases_core data pid due q
     \<and> feasible_new_cases_core data pid due q \<le> q - already_planned_cases_core data pid due"
  using new_capacity_cases_core_bounds[OF assms] assms
  by (simp add: feasible_new_cases_core_def)

lemma core_branch_D_remaining:
  assumes "\<not> q \<le> already_planned_cases_core data pid due"
    "\<not> (capacity_shortfall_core data pid due q = 0 \<and> material_check_core data pid due q = [])"
  shows "already_planned_cases_core data pid due + feasible_new_cases_core data pid due q < q"
proof (cases "material_check_core data pid due q = []")
  case True
  with assms(2) have "capacity_shortfall_core data pid due q \<noteq> 0" by simp
  then show ?thesis using True
    by (simp add: capacity_shortfall_core_def feasible_new_cases_core_def max_def split: if_splits)
next
  case False
  then show ?thesis using assms(1) by (simp add: feasible_new_cases_core_def)
qed

lemma core_cases:
  assumes "to_datetime s = Some due"
  obtains
    (A) res where "q \<le> already_planned_cases_core data pid due"
      "simulate_request_core to_datetime pid q s dc data = Inr res"
      "requested_qty res = q" "status res = Full"
      "covered_qty_on_requested_date res = q" "remaining_qty res = 0"
      "existing_orders_used res = covering_rows_core data pid due"
      "capacity_notes res = []" "material_notes res = []"
  | (B) res where "\<not> q \<le> already_planned_cases_core data pid due"
      "capable_lines_core data pid = []"
      "simulate_request_core to_datetime pid q s dc data = Inr res"
      "requested_qty res = q" "status res = No"
      "covered_qty_on_requested_date res = already_planned_cases_core data pid due"
      "remaining_qty res = q - already_planned_cases_core data pid due"
      "existing_orders_used res = covering_rows_core data pid due"
      "capacity_notes res = [Text ''No capable line for this SKU'']" "material_notes res = []"
  | (C) res where "\<not> q \<le> already_planned_cases_core data pid due"
      "capable_lines_core data pid \<noteq> []"
      "capacity_shortfall_core data pid due q = 0" "material_check_core data pid due q = []"
      "simulate_request_core to_datetime pid q s dc data = Inr res"
      "requested_qty res = q" "status res = Full"
      "covered_qty_on_requested_date res = q" "remaining_qty res = 0"
      "existing_orders_used res = covering_rows_core data pid due @ extra_plan_rows_core data pid due q"
      "capacity_notes res = []" "material_notes res = []"
  | (D) res where "\<not> q \<le> already_planned_cases_core data pid due"
      "capable_lines_core data pid \<noteq> []"
      "\<not> (capacity_shortfall_core data pid due q = 0 \<and> material_check_core data pid due q = [])"
      "simulate_request_core to_datetime pid q s dc data = Inr res"
      "requested_qty res = q"
      "status res = (if already_planned_cases_core data pid due + feasible_new_cases_core data pid due q > 0
                      then Partial else No)"
      "covered_qty_on_requested_date res
         = already_planned_cases_core data pid due + feasible_new_cases_core data pid due q"
      "remaining_qty res
         = max (q - (already_planned_cases_core data pid due + feasible_new_cases_core data pid due q)) 0"
      "existing_orders_used res = covering_rows_core data pid due @
         (if feasible_new_cases_core data pid due q > 0 \<and> material_check_core data pid due q = []
          then extra_plan_rows_core data pid due q else [])"
      "capacity_notes res = (if capacity_shortfall_core data pid due q > 0
                              then [ShortCases (capacity_shortfall_core data pid due q) due] else [])"
      "material_notes res = material_check_core data pid due q"
proof (cases "q \<le> already_planned_cases_core data pid due")
  case True
  from core_branch_A[where to_datetime = to_datetime, OF assms True, of dc] A True show ?thesis by blast
next
  case nA: False
  show ?thesis
  proof (cases "capable_lines_core data pid = []")
    case True
    from core_branch_B[where to_datetime = to_datetime, OF assms nA True, of dc] B nA True show ?thesis by blast
  next
    case nB: False
    show ?thesis
    proof (cases "capacity_shortfall_core data pid due q = 0 \<and> material_check_core data pid due q = []")
      case True
      then have c: "capacity_shortfall_core data pid due q = 0" "material_check_core data pid due q = []"
        by simp_all
      from core_branch_C[where to_datetime = to_datetime, OF assms nA nB c, of dc] C nA nB c show ?thesis by blast
    next
      case False
      from core_branch_D[where to_datetime = to_datetime, OF assms nA nB False, of dc] D nA nB False show ?thesis by blast
    qed
  qed
qed

lemma app_cases:
  assumes "to_datetime s = Some due"
  obtains
    (A) res where "q \<le> already_planned_cases_app data pid due"
      "simulate_request to_datetime pid q s data = Inr res"
      "can_fulfill res" "allocated_total res = q" "remaining res = 0"
      "plan_rows res = covering_rows_app data pid due"
      "capacity_blockers res = []" "material_blockers res = []"
  | (B) res where "\<not> q \<le> already_planned_cases_app data pid due"
      "capable_lines_app data pid = []"
      "simulate_request to_datetime pid q s data = Inr res"
      "\<not> can_fulfill res"
      "allocated_total res = already_planned_cases_app data pid due"
      "remaining res = q - already_planned_cases_app data pid due"
      "plan_rows res = covering_rows_app data pid due"
      "capacity_blockers res = [Text ''No capable line found'']"
      "material_blockers res = [Text ''No line can run this product'']"
  | (C) res where "\<not> q \<le> already_planned_cases_app data pid due"
      "capable_lines_app data pid \<noteq> []"
      "capacity_shortfall_app data pid due q = 0" "material_check_app data pid due q = []"
      "simulate_request to_datetime pid q s data = Inr res"
      "can_fulfill res" "allocated_total res = q" "remaining res = 0"
      "plan_rows res = covering_rows_app data pid due @ extra_plan_rows_app data pid due q"
      "capacity_blockers res = []" "material_blockers res = []"
  | (D) res where "\<not> q \<le> already_planned_cases_app data pid due"
      "capable_lines_app data pid \<noteq> []"
      "\<not> (capacity_shortfall_app data pid due q = 0 \<and> material_check_app data pid due q = [])"
      "simulate_request to_datetime pid q s data = Inr res"
      "\<not> can_fulfill res"
      "allocated_total res
         = already_planned_cases_app data pid due + feasible_new_cases_app data pid due q"
      "remaining res
         = max (q - (already_planned_cases_app data pid due + feasible_new_cases_app data pid due q)) 0"
      "plan_rows res = covering_rows_app data pid due @
         (if feasible_new_cases_app data pid due q > 0 \<and> material_check_app data pid due q = []
          then extra_plan_rows_app data pid due q else [])"
      "capacity_blockers res = (if capacity_shortfall_app data pid due q > 0
                              then [ShortCases (capacity_shortfall_app data pid due q) due] else [])"
      "material_blockers res = material_check_app data pid due q"
proof (cases "q \<le> already_planned_cases_app data pid due")
  case True
  from app_branch_A[where to_datetime = to_datetime, OF assms True] A True show ?thesis by blast
next
  case nA: False
  show ?thesis
  proof (cases "capable_lines_app data pid = []")
    case True
    from app_branch_B[where to_datetime = to_datetime, OF assms nA True] B nA True show ?thesis by blast
  next
    case nB: False
    show ?thesis
    proof (cases "capacity_shortfall_app data pid due q = 0 \<and> material_check_app data pid due q = []")
      case True
      then have c: "capacity_shortfall_app data pid due q = 0" "material_check_app data pid due q = []"
        by simp_all
      from app_branch_C[where to_datetime = to_datetime, OF assms nA nB c] C nA nB c show ?thesis by blast
    next
      case False
      from app_branch_D[where to_datetime = to_datetime, OF assms nA nB False] D nA nB False show ?thesis by blast
    qed
  qed
qed

section \<open>Allocated, remaining and status\<close>

lemma app_branch_D_remaining:
  assumes "\<not> q \<le> already_planned_cases_app data pid due"
    "\<not> (capacity_shortfall_app data pid due q = 0 \<and> material_check_app data pid due q = [])"
  shows "already_planned_cases_app data pid due + feasible_new_cases_app data pid due q < q"
proof -
  have e: "material_check_app data pid due q = [] \<longleftrightarrow> material_check_core data pid due q = []"
    using material_check_app_length[of data pid due q] by (metis length_0_conv)
  from core_branch_D_remaining[of q data pid due] assms e show ?thesis
    by (simp add: already_planned_app_core capacity_shortfall_app_core feasible_new_cases_app_core)
qed

text \<open>
  C1. For every valid input (a due date the parser accepts, a positive requested quantity,
  any snapshot) both simulators return a result, and in it the allocated total plus the
  remaining quantity is the requested quantity: \<^verbatim>\<open>covered_qty_on_requested_date + remaining_qty
  == requested_qty\<close> in \<^verbatim>\<open>main.py\<close>, \<^verbatim>\<open>allocated_total + remaining == extra_cases\<close> in \<^verbatim>\<open>app.py\<close>.
  The proof goes through the four branches of the classifier.
\<close>

theorem allocated_plus_remaining:
  assumes "to_datetime s = Some due" "0 < q"
  shows "(\<exists>res. simulate_request_core to_datetime pid q s dc data = Inr res
            \<and> requested_qty res = q
            \<and> covered_qty_on_requested_date res + remaining_qty res = requested_qty res)
       \<and> (\<exists>res. simulate_request to_datetime pid q s data = Inr res
            \<and> allocated_total res + remaining res = q)"
proof
  show "\<exists>res. simulate_request_core to_datetime pid q s dc data = Inr res
            \<and> requested_qty res = q
            \<and> covered_qty_on_requested_date res + remaining_qty res = requested_qty res"
  using assms(1)
  proof (cases rule: core_cases[where to_datetime = to_datetime and s = s and due = due and q = q
        and data = data and pid = pid and dc = dc])
    case (A res)
    then show ?thesis by simp
  next
    case (B res)
    then show ?thesis by simp
  next
    case (C res)
    then show ?thesis by simp
  next
    case (D res)
    from core_branch_D_remaining[OF D(1) D(3)] D show ?thesis by simp
  qed
  show "\<exists>res. simulate_request to_datetime pid q s data = Inr res
            \<and> allocated_total res + remaining res = q"
  using assms(1)
  proof (cases rule: app_cases[where to_datetime = to_datetime and s = s and due = due and q = q
        and data = data and pid = pid])
    case (A res)
    then show ?thesis by simp
  next
    case (B res)
    then show ?thesis by simp
  next
    case (C res)
    then show ?thesis by simp
  next
    case (D res)
    from app_branch_D_remaining[OF D(1) D(3)] D show ?thesis by simp
  qed
qed

theorem allocated_plus_remaining_witness:
  "sample_to_datetime ''2025-11-03'' = Some 739558 \<and> (0::int) < 1200
   \<and> (\<exists>res. simulate_request_core sample_to_datetime ''COLA_330'' 1200 ''2025-11-03'' ''North DC''
               sample_data = Inr res
            \<and> requested_qty res = 1200
            \<and> covered_qty_on_requested_date res + remaining_qty res = requested_qty res)
   \<and> (\<exists>res. simulate_request sample_to_datetime ''COLA_330'' 1200 ''2025-11-03'' sample_data = Inr res
            \<and> allocated_total res + remaining res = 1200)"
  using allocated_plus_remaining[where to_datetime = sample_to_datetime and s = "''2025-11-03''"
      and due = 739558 and q = 1200 and pid = "''COLA_330''" and dc = "''North DC''"
      and data = sample_data]
  by (simp add: sample_to_datetime_def)

text \<open>
  C10. For every valid input the returned status is \<open>Full\<close> exactly when the returned
  remaining quantity is zero (in \<^verbatim>\<open>app.py\<close>: \<^verbatim>\<open>can_fulfill\<close> is true exactly when
  \<^verbatim>\<open>remaining\<close> is 0), and every other outcome has a strictly positive remaining quantity.
\<close>

theorem full_iff_no_remaining:
  assumes "to_datetime s = Some due" "0 < q"
  shows "(\<exists>res. simulate_request_core to_datetime pid q s dc data = Inr res
            \<and> (status res = Full \<longleftrightarrow> remaining_qty res = 0)
            \<and> (status res \<noteq> Full \<longrightarrow> 0 < remaining_qty res))
       \<and> (\<exists>res. simulate_request to_datetime pid q s data = Inr res
            \<and> (can_fulfill res \<longleftrightarrow> remaining res = 0)
            \<and> (\<not> can_fulfill res \<longrightarrow> 0 < remaining res))"
proof
  show "\<exists>res. simulate_request_core to_datetime pid q s dc data = Inr res
            \<and> (status res = Full \<longleftrightarrow> remaining_qty res = 0)
            \<and> (status res \<noteq> Full \<longrightarrow> 0 < remaining_qty res)"
  using assms(1)
  proof (cases rule: core_cases[where to_datetime = to_datetime and s = s and due = due and q = q
        and data = data and pid = pid and dc = dc])
    case (A res)
    then show ?thesis by simp
  next
    case (B res)
    then show ?thesis by simp
  next
    case (C res)
    then show ?thesis by simp
  next
    case (D res)
    from core_branch_D_remaining[OF D(1) D(3)] D show ?thesis by simp
  qed
  show "\<exists>res. simulate_request to_datetime pid q s data = Inr res
            \<and> (can_fulfill res \<longleftrightarrow> remaining res = 0)
            \<and> (\<not> can_fulfill res \<longrightarrow> 0 < remaining res)"
  using assms(1)
  proof (cases rule: app_cases[where to_datetime = to_datetime and s = s and due = due and q = q
        and data = data and pid = pid])
    case (A res)
    then show ?thesis by simp
  next
    case (B res)
    then show ?thesis by simp
  next
    case (C res)
    then show ?thesis by simp
  next
    case (D res)
    from app_branch_D_remaining[OF D(1) D(3)] D show ?thesis by simp
  qed
qed

theorem full_iff_no_remaining_witness:
  "sample_to_datetime ''2025-11-03'' = Some 739558 \<and> (0::int) < 5000
   \<and> (\<exists>res. simulate_request_core sample_to_datetime ''COLA_330'' 5000 ''2025-11-03'' ''North DC''
               sample_data = Inr res
            \<and> (status res = Full \<longleftrightarrow> remaining_qty res = 0)
            \<and> (status res \<noteq> Full \<longrightarrow> 0 < remaining_qty res))
   \<and> (\<exists>res. simulate_request sample_to_datetime ''COLA_330'' 5000 ''2025-11-03'' sample_data = Inr res
            \<and> (can_fulfill res \<longleftrightarrow> remaining res = 0)
            \<and> (\<not> can_fulfill res \<longrightarrow> 0 < remaining res))"
  using full_iff_no_remaining[where to_datetime = sample_to_datetime and s = "''2025-11-03''"
      and due = 739558 and q = 5000 and pid = "''COLA_330''" and dc = "''North DC''"
      and data = sample_data]
  by (simp add: sample_to_datetime_def)

section \<open>The sample snapshots, evaluated\<close>

lemma sample_window: "sched_window_core sample_data 739558 = schedule sample_data"
  by (simp add: sched_window_core_def sample_data_def)

lemma sample_already: "already_planned_cases_core sample_data ''COLA_330'' 739558 = 100"
  by (simp add: already_planned_cases_core_def sku_sched_core_def sample_window)
     (simp add: sample_data_def)

lemma sample_covering:
  "covering_rows_core sample_data ''COLA_330'' 739558 =
     [\<lparr>pr_line_id = 1, pr_production_date = 739557, allocated_cases = 100, pr_source = already_planned\<rparr>]"
  by (simp add: covering_rows_core_def sku_sched_core_def sample_window)
     (simp add: sample_data_def)

lemma sample_capable: "capable_lines_core sample_data ''COLA_330'' = [2, 1]"
  by (simp add: capable_lines_core_def sample_data_def)

lemma sample_allocation:
  "allocation_core sample_data ''COLA_330'' 739558 1100 =
   ([\<lparr>pr_line_id = 2, pr_production_date = 739557, allocated_cases = 500, pr_source = new_plan\<rparr>,
     \<lparr>pr_line_id = 1, pr_production_date = 739557, allocated_cases = 600, pr_source = new_plan\<rparr>], 0)"
  by (simp add: allocation_core_def sample_window sample_capable) (simp add: sample_data_def)

lemma sample_tea_already: "already_planned_cases_core sample_data ''TEA_1L'' 739558 = 0"
  by (simp add: already_planned_cases_core_def sku_sched_core_def sample_window)
     (simp add: sample_data_def)

lemma sample_tea_covering: "covering_rows_core sample_data ''TEA_1L'' 739558 = []"
  by (simp add: covering_rows_core_def sku_sched_core_def sample_window)
     (simp add: sample_data_def)

lemma sample_tea_capable: "capable_lines_core sample_data ''TEA_1L'' = []"
  by (simp add: capable_lines_core_def sample_data_def)

lemma low_stock_already: "already_planned_cases_core sample_data_low_stock ''COLA_330'' 739558 = 100"
  using sample_already
  by (simp add: already_planned_cases_core_def sku_sched_core_def sched_window_core_def
      sample_data_low_stock_def)

lemma low_stock_capable: "capable_lines_core sample_data_low_stock ''COLA_330'' = [2, 1]"
  using sample_capable by (simp add: capable_lines_core_def sample_data_low_stock_def)

lemma low_stock_allocation:
  "allocation_core sample_data_low_stock ''COLA_330'' 739558 need
     = allocation_core sample_data ''COLA_330'' 739558 need"
  by (simp add: allocation_core_def capable_lines_core_def sched_window_core_def
      sample_data_low_stock_def)

lemma low_stock_new_capacity:
  "new_capacity_cases_core sample_data_low_stock ''COLA_330'' 739558 1200 = 1100"
  by (simp add: new_capacity_cases_core_def need_after_plan_core_def low_stock_already
      low_stock_allocation sample_allocation)

lemma low_stock_shortfall:
  "capacity_shortfall_core sample_data_low_stock ''COLA_330'' 739558 1200 = 0"
  by (simp add: capacity_shortfall_core_def low_stock_new_capacity low_stock_already)

lemma low_stock_material:
  "material_check_core sample_data_low_stock ''COLA_330'' 739558 1200
     = [ShortBy ''Sugar'' 2100 (Some 5)]"
  unfolding material_check_core_def low_stock_new_capacity
  by (simp add: mat_blockers_core_def merge_left_def sample_data_low_stock_def sample_data_def
      float64_eval)

section \<open>The final branch, the no-capable-line branch and the two copies\<close>

lemma material_check_app_empty:
  "material_check_app data pid due q = [] \<longleftrightarrow> material_check_core data pid due q = []"
  using material_check_app_length[of data pid due q] by (metis length_0_conv)

lemma covering_rows_core_source:
  "r \<in> set (covering_rows_core data pid due) \<Longrightarrow> pr_source r = already_planned"
  by (auto simp: covering_rows_core_def Let_def split: if_splits)

lemma capable_lines_core_empty:
  "capable_lines_core data pid = [] \<longleftrightarrow> (\<forall>c \<in> set (capability data). c_product_id c \<noteq> pid)"
proof -
  have "capable_lines_core data pid = [] \<longleftrightarrow> set (capable_lines_core data pid) = {}"
    by simp
  also have "\<dots> \<longleftrightarrow> (\<forall>c \<in> set (capability data). c_product_id c \<noteq> pid)"
    by (auto simp: capable_lines_core_def unique_set)
  finally show ?thesis .
qed

lemma already_planned_nonneg:
  assumes "\<forall>r \<in> set (schedule data). 0 \<le> planned_qty_cases r"
  shows "0 \<le> already_planned_cases_core data pid due"
proof -
  have "0 \<le> sum_list (map planned_qty_cases (sku_sched_core data pid due))"
    using assms by (intro sum_list_nonneg) (auto simp: sku_sched_core_def sched_window_core_def)
  then show ?thesis by (simp add: already_planned_cases_core_def Let_def)
qed

text \<open>
  C2. The final branch of the classifier is reached when some line is capable, the plan
  does not cover the request, and the capacity shortfall is positive or the material check
  found a blocker. There the newly allocated quantity is zeroed whenever a material blocker
  exists (also when the capacity shortfall is 0), the allocated total is
  the already planned quantity plus the feasible new quantity, the new-plan rows are in the
  plan only when the feasible new quantity is positive, the status of \<^verbatim>\<open>main.py\<close> is
  \<open>Partial\<close> when the allocated total is positive and \<open>No\<close> otherwise (\<^verbatim>\<open>app.py\<close>
  reports \<^verbatim>\<open>can_fulfill = False\<close>), and the capacity blockers are the single shortfall
  note exactly when the capacity shortfall is positive, whatever the material check found.
  The hypotheses are stated with the quantities of \<^verbatim>\<open>main.py\<close>; those of \<^verbatim>\<open>app.py\<close> are
  equal to them (section ``The two files compute the same intermediate quantities'').
\<close>

theorem final_branch:
  assumes "to_datetime s = Some due"
    and "already_planned_cases_core data pid due < q"
    and "capable_lines_core data pid \<noteq> []"
    and "0 < capacity_shortfall_core data pid due q \<or> material_check_core data pid due q \<noteq> []"
  shows "(\<exists>res. simulate_request_core to_datetime pid q s dc data = Inr res
          \<and> feasible_new_cases_core data pid due q
              = (if material_check_core data pid due q \<noteq> [] then 0
                 else new_capacity_cases_core data pid due q)
          \<and> covered_qty_on_requested_date res
              = already_planned_cases_core data pid due + feasible_new_cases_core data pid due q
          \<and> existing_orders_used res
              = covering_rows_core data pid due @
                (if 0 < feasible_new_cases_core data pid due q
                 then extra_plan_rows_core data pid due q else [])
          \<and> status res = (if 0 < covered_qty_on_requested_date res then Partial else No)
          \<and> capacity_notes res
              = (if 0 < capacity_shortfall_core data pid due q
                 then [ShortCases (capacity_shortfall_core data pid due q) due] else [])
          \<and> material_notes res = material_check_core data pid due q)
       \<and> (\<exists>res. simulate_request to_datetime pid q s data = Inr res
          \<and> feasible_new_cases_app data pid due q
              = (if material_check_app data pid due q \<noteq> [] then 0
                 else new_capacity_cases_app data pid due q)
          \<and> allocated_total res
              = already_planned_cases_app data pid due + feasible_new_cases_app data pid due q
          \<and> plan_rows res
              = covering_rows_app data pid due @
                (if 0 < feasible_new_cases_app data pid due q
                 then extra_plan_rows_app data pid due q else [])
          \<and> \<not> can_fulfill res
          \<and> capacity_blockers res
              = (if 0 < capacity_shortfall_app data pid due q
                 then [ShortCases (capacity_shortfall_app data pid due q) due] else [])
          \<and> material_blockers res = material_check_app data pid due q)"
proof -
  have nA: "\<not> q \<le> already_planned_cases_core data pid due" using assms(2) by simp
  have sf: "0 \<le> capacity_shortfall_core data pid due q"
    by (simp add: capacity_shortfall_core_def)
  have nC: "\<not> (capacity_shortfall_core data pid due q = 0 \<and> material_check_core data pid due q = [])"
    using assms(4) by auto
  have fe: "feasible_new_cases_core data pid due q
              = (if material_check_core data pid due q \<noteq> [] then 0
                 else new_capacity_cases_core data pid due q)"
    by (simp add: feasible_new_cases_core_def)
  have fe0: "material_check_core data pid due q \<noteq> [] \<Longrightarrow> \<not> 0 < feasible_new_cases_core data pid due q"
    by (simp add: fe)
  from core_branch_D[where to_datetime = to_datetime, OF assms(1) nA assms(3) nC, of dc]
  obtain res where res: "simulate_request_core to_datetime pid q s dc data = Inr res"
    "status res = (if already_planned_cases_core data pid due + feasible_new_cases_core data pid due q > 0
                      then Partial else No)"
    "covered_qty_on_requested_date res
         = already_planned_cases_core data pid due + feasible_new_cases_core data pid due q"
    "existing_orders_used res = covering_rows_core data pid due @
         (if feasible_new_cases_core data pid due q > 0 \<and> material_check_core data pid due q = []
          then extra_plan_rows_core data pid due q else [])"
    "capacity_notes res = (if capacity_shortfall_core data pid due q > 0
                              then [ShortCases (capacity_shortfall_core data pid due q) due] else [])"
    "material_notes res = material_check_core data pid due q"
    by blast
  have rows: "existing_orders_used res = covering_rows_core data pid due @
                (if 0 < feasible_new_cases_core data pid due q
                 then extra_plan_rows_core data pid due q else [])"
    using res(4) fe0 by auto
  have core: "\<exists>res. simulate_request_core to_datetime pid q s dc data = Inr res
          \<and> feasible_new_cases_core data pid due q
              = (if material_check_core data pid due q \<noteq> [] then 0
                 else new_capacity_cases_core data pid due q)
          \<and> covered_qty_on_requested_date res
              = already_planned_cases_core data pid due + feasible_new_cases_core data pid due q
          \<and> existing_orders_used res
              = covering_rows_core data pid due @
                (if 0 < feasible_new_cases_core data pid due q
                 then extra_plan_rows_core data pid due q else [])
          \<and> status res = (if 0 < covered_qty_on_requested_date res then Partial else No)
          \<and> capacity_notes res
              = (if 0 < capacity_shortfall_core data pid due q
                 then [ShortCases (capacity_shortfall_core data pid due q) due] else [])
          \<and> material_notes res = material_check_core data pid due q"
    using res(1) fe res(3) rows res(2) res(5) res(6) by simp
  have nA': "\<not> q \<le> already_planned_cases_app data pid due"
    using nA by (simp add: already_planned_app_core)
  have nB': "capable_lines_app data pid \<noteq> []"
    using assms(3) by (simp add: capable_lines_app_core)
  have nC': "\<not> (capacity_shortfall_app data pid due q = 0 \<and> material_check_app data pid due q = [])"
    using nC by (simp add: capacity_shortfall_app_core material_check_app_empty)
  have fe': "feasible_new_cases_app data pid due q
              = (if material_check_app data pid due q \<noteq> [] then 0
                 else new_capacity_cases_app data pid due q)"
    by (simp add: feasible_new_cases_app_def)
  have fe0': "material_check_app data pid due q \<noteq> [] \<Longrightarrow> \<not> 0 < feasible_new_cases_app data pid due q"
    by (simp add: fe')
  from app_branch_D[where to_datetime = to_datetime, OF assms(1) nA' nB' nC']
  obtain a where a: "simulate_request to_datetime pid q s data = Inr a"
    "\<not> can_fulfill a"
    "allocated_total a
         = already_planned_cases_app data pid due + feasible_new_cases_app data pid due q"
    "plan_rows a = covering_rows_app data pid due @
         (if feasible_new_cases_app data pid due q > 0 \<and> material_check_app data pid due q = []
          then extra_plan_rows_app data pid due q else [])"
    "capacity_blockers a = (if capacity_shortfall_app data pid due q > 0
                              then [ShortCases (capacity_shortfall_app data pid due q) due] else [])"
    "material_blockers a = material_check_app data pid due q"
    by blast
  have rows': "plan_rows a = covering_rows_app data pid due @
                (if 0 < feasible_new_cases_app data pid due q
                 then extra_plan_rows_app data pid due q else [])"
    using a(4) fe0' by auto
  have app: "\<exists>res. simulate_request to_datetime pid q s data = Inr res
          \<and> feasible_new_cases_app data pid due q
              = (if material_check_app data pid due q \<noteq> [] then 0
                 else new_capacity_cases_app data pid due q)
          \<and> allocated_total res
              = already_planned_cases_app data pid due + feasible_new_cases_app data pid due q
          \<and> plan_rows res
              = covering_rows_app data pid due @
                (if 0 < feasible_new_cases_app data pid due q
                 then extra_plan_rows_app data pid due q else [])
          \<and> \<not> can_fulfill res
          \<and> capacity_blockers res
              = (if 0 < capacity_shortfall_app data pid due q
                 then [ShortCases (capacity_shortfall_app data pid due q) due] else [])
          \<and> material_blockers res = material_check_app data pid due q"
    using a(1) fe' a(3) rows' a(2) a(5) a(6) by simp
  from core app show ?thesis by simp
qed

theorem final_branch_witness:
  "sample_to_datetime ''2025-11-03'' = Some 739558
   \<and> already_planned_cases_core sample_data_low_stock ''COLA_330'' 739558 < 1200
   \<and> capable_lines_core sample_data_low_stock ''COLA_330'' \<noteq> []
   \<and> (0 < capacity_shortfall_core sample_data_low_stock ''COLA_330'' 739558 1200
        \<or> material_check_core sample_data_low_stock ''COLA_330'' 739558 1200 \<noteq> [])
   \<and> capacity_shortfall_core sample_data_low_stock ''COLA_330'' 739558 1200 = 0
   \<and> (\<exists>res. simulate_request_core sample_to_datetime ''COLA_330'' 1200 ''2025-11-03'' ''North DC''
               sample_data_low_stock = Inr res
          \<and> covered_qty_on_requested_date res = 100 \<and> status res = Partial
          \<and> existing_orders_used res = covering_rows_core sample_data_low_stock ''COLA_330'' 739558
          \<and> capacity_notes res = []
          \<and> material_notes res = [ShortBy ''Sugar'' 2100 (Some 5)])"
proof -
  have h1: "sample_to_datetime ''2025-11-03'' = Some 739558"
    by (simp add: sample_to_datetime_def)
  have h2: "already_planned_cases_core sample_data_low_stock ''COLA_330'' 739558 < 1200"
    by (simp add: low_stock_already)
  have h3: "capable_lines_core sample_data_low_stock ''COLA_330'' \<noteq> []"
    by (simp add: low_stock_capable)
  have h4: "0 < capacity_shortfall_core sample_data_low_stock ''COLA_330'' 739558 1200
        \<or> material_check_core sample_data_low_stock ''COLA_330'' 739558 1200 \<noteq> []"
    by (simp add: low_stock_material)
  from final_branch[where to_datetime = sample_to_datetime and dc = "''North DC''", OF h1 h2 h3 h4]
  show ?thesis using h1 h2 h3 h4
    by (auto simp: low_stock_material low_stock_shortfall low_stock_already)
qed

text \<open>
  C7 (amended). When the plan covers less than the request and the capability table has no
  row for the product, no allocation is tried: the plan rows are the already planned rows,
  the allocated total is the already planned quantity, the remaining quantity is the
  request minus it, the outcome is \<open>No\<close> (\<^verbatim>\<open>can_fulfill = False\<close> in \<^verbatim>\<open>app.py\<close>) and the
  capacity blockers are the single ``no capable line'' note. \<^verbatim>\<open>main.py\<close> reports no
  material blocker; \<^verbatim>\<open>app.py\<close> reports the one material blocker
  \<^verbatim>\<open>"No line can run this product"\<close>.
\<close>

theorem no_capable_line:
  assumes "to_datetime s = Some due"
    and "already_planned_cases_core data pid due < q"
    and "\<forall>c \<in> set (capability data). c_product_id c \<noteq> pid"
  shows "(\<exists>res. simulate_request_core to_datetime pid q s dc data = Inr res
          \<and> status res = No
          \<and> covered_qty_on_requested_date res = already_planned_cases_core data pid due
          \<and> remaining_qty res = q - already_planned_cases_core data pid due
          \<and> existing_orders_used res = covering_rows_core data pid due
          \<and> capacity_notes res = [Text ''No capable line for this SKU'']
          \<and> material_notes res = [])
       \<and> (\<exists>res. simulate_request to_datetime pid q s data = Inr res
          \<and> \<not> can_fulfill res
          \<and> allocated_total res = already_planned_cases_app data pid due
          \<and> remaining res = q - already_planned_cases_app data pid due
          \<and> plan_rows res = covering_rows_app data pid due
          \<and> capacity_blockers res = [Text ''No capable line found'']
          \<and> material_blockers res = [Text ''No line can run this product''])"
proof -
  have nA: "\<not> q \<le> already_planned_cases_core data pid due" using assms(2) by simp
  have B: "capable_lines_core data pid = []"
    using assms(3) by (simp add: capable_lines_core_empty)
  have nA': "\<not> q \<le> already_planned_cases_app data pid due"
    using nA by (simp add: already_planned_app_core)
  have B': "capable_lines_app data pid = []"
    using B by (simp add: capable_lines_app_core)
  from core_branch_B[where to_datetime = to_datetime, OF assms(1) nA B, of dc]
    app_branch_B[where to_datetime = to_datetime, OF assms(1) nA' B']
  show ?thesis by blast
qed

theorem no_capable_line_witness:
  "sample_to_datetime ''2025-11-03'' = Some 739558
   \<and> already_planned_cases_core sample_data ''TEA_1L'' 739558 < 50
   \<and> filter (\<lambda>c. c_product_id c = ''TEA_1L'') (capability sample_data) = []
   \<and> (\<exists>res. simulate_request_core sample_to_datetime ''TEA_1L'' 50 ''2025-11-03'' ''North DC''
               sample_data = Inr res
          \<and> status res = No \<and> covered_qty_on_requested_date res = 0 \<and> remaining_qty res = 50
          \<and> capacity_notes res = [Text ''No capable line for this SKU'']
          \<and> material_notes res = [])
   \<and> (\<exists>res. simulate_request sample_to_datetime ''TEA_1L'' 50 ''2025-11-03'' sample_data = Inr res
          \<and> \<not> can_fulfill res \<and> allocated_total res = 0 \<and> remaining res = 50
          \<and> capacity_blockers res = [Text ''No capable line found'']
          \<and> material_blockers res = [Text ''No line can run this product''])"
proof -
  have h1: "sample_to_datetime ''2025-11-03'' = Some 739558"
    by (simp add: sample_to_datetime_def)
  have h2: "already_planned_cases_core sample_data ''TEA_1L'' 739558 < 50"
    by (simp add: sample_tea_already)
  have h3: "\<forall>c \<in> set (capability sample_data). c_product_id c \<noteq> ''TEA_1L''"
    by (simp add: sample_data_def)
  from no_capable_line[where to_datetime = sample_to_datetime and dc = "''North DC''", OF h1 h2 h3]
  have "(\<exists>res. simulate_request_core sample_to_datetime ''TEA_1L'' 50 ''2025-11-03'' ''North DC''
               sample_data = Inr res
          \<and> status res = No \<and> covered_qty_on_requested_date res = 0 \<and> remaining_qty res = 50
          \<and> capacity_notes res = [Text ''No capable line for this SKU'']
          \<and> material_notes res = [])
   \<and> (\<exists>res. simulate_request sample_to_datetime ''TEA_1L'' 50 ''2025-11-03'' sample_data = Inr res
          \<and> \<not> can_fulfill res \<and> allocated_total res = 0 \<and> remaining res = 50
          \<and> capacity_blockers res = [Text ''No capable line found'']
          \<and> material_blockers res = [Text ''No line can run this product''])"
    unfolding already_planned_app_core sample_tea_already by auto
  moreover have "filter (\<lambda>c. c_product_id c = ''TEA_1L'') (capability sample_data) = []"
    by (simp add: sample_data_def)
  ultimately show ?thesis using h1 h2 by blast
qed

lemma sample_tea_app:
  "simulate_request sample_to_datetime ''TEA_1L'' 50 ''2025-11-03'' sample_data =
     Inr \<lparr>can_fulfill = False, allocated_total = 0, remaining = 50, plan_rows = [],
          material_blockers = [Text ''No line can run this product''],
          capacity_blockers = [Text ''No capable line found'']\<rparr>"
  by (simp add: simulate_request_def sample_to_datetime_def already_planned_app_core
      covering_rows_app_core capable_lines_app_core sample_tea_already sample_tea_covering
      sample_tea_capable)

lemma sample_tea_core:
  "simulate_request_core sample_to_datetime ''TEA_1L'' 50 ''2025-11-03'' ''North DC'' sample_data =
     Inr \<lparr>sku = ''TEA_1L'', product_name = ''TEA_1L'', dc_name = ''North DC'',
          requested_date = 739558, requested_qty = 50, status = No,
          covered_qty_on_requested_date = 0, remaining_qty = 50,
          next_available_date = None, next_available_additional_qty = 0,
          existing_orders_used = [],
          capacity_notes = [Text ''No capable line for this SKU''], material_notes = []\<rparr>"
  by (simp add: simulate_request_core_def sample_to_datetime_def sample_tea_already
      sample_tea_covering sample_tea_capable)
     (simp add: sample_data_def)

theorem no_capable_line_counterexample:
  "already_planned_cases_app sample_data ''TEA_1L'' 739558 < 50
   \<and> filter (\<lambda>c. c_product_id c = ''TEA_1L'') (capability sample_data) = []
   \<and> simulate_request sample_to_datetime ''TEA_1L'' 50 ''2025-11-03'' sample_data =
       Inr \<lparr>can_fulfill = False, allocated_total = 0, remaining = 50, plan_rows = [],
            material_blockers = [Text ''No line can run this product''],
            capacity_blockers = [Text ''No capable line found'']\<rparr>"
proof -
  have "already_planned_cases_app sample_data ''TEA_1L'' 739558 < 50"
    by (simp add: already_planned_app_core sample_tea_already)
  moreover have "filter (\<lambda>c. c_product_id c = ''TEA_1L'') (capability sample_data) = []"
    by (simp add: sample_data_def)
  ultimately show ?thesis using sample_tea_app by blast
qed

text \<open>
  C9 (amended). On the same product, quantity, due date and snapshot, \<^verbatim>\<open>simulate_request\<close>
  of \<^verbatim>\<open>app.py\<close> and \<^verbatim>\<open>simulate_request_core\<close> of \<^verbatim>\<open>main.py\<close> return the same allocated
  total, the same remaining quantity, the same plan rows in the same order and the same
  number of capacity blockers, and \<^verbatim>\<open>can_fulfill\<close> holds exactly when the status is
  \<open>Full\<close>. They return the same number of material blockers except in the
  no-capable-line branch, where \<^verbatim>\<open>app.py\<close> returns one and \<^verbatim>\<open>main.py\<close> none.
\<close>

theorem two_copies_agree:
  assumes "to_datetime s = Some due"
  shows "\<exists>r a. simulate_request_core to_datetime pid q s dc data = Inr r
          \<and> simulate_request to_datetime pid q s data = Inr a
          \<and> allocated_total a = covered_qty_on_requested_date r
          \<and> remaining a = remaining_qty r
          \<and> plan_rows a = existing_orders_used r
          \<and> length (capacity_blockers a) = length (capacity_notes r)
          \<and> (can_fulfill a \<longleftrightarrow> status r = Full)
          \<and> (if already_planned_cases_core data pid due < q \<and> capable_lines_core data pid = []
              then material_blockers a = [Text ''No line can run this product'']
                   \<and> material_notes r = []
              else length (material_blockers a) = length (material_notes r))"
  using assms
proof (cases rule: core_cases[where to_datetime = to_datetime and s = s and due = due and q = q
        and data = data and pid = pid and dc = dc])
  case (A r)
  have "q \<le> already_planned_cases_app data pid due"
    using A(1) by (simp add: already_planned_app_core)
  from app_branch_A[where to_datetime = to_datetime, OF assms this]
  obtain a where "simulate_request to_datetime pid q s data = Inr a"
    "can_fulfill a" "allocated_total a = q" "remaining a = 0"
    "plan_rows a = covering_rows_app data pid due"
    "capacity_blockers a = []" "material_blockers a = []"
    by blast
  with A show ?thesis by (simp add: covering_rows_app_core)
next
  case (B r)
  have c: "\<not> q \<le> already_planned_cases_app data pid due" "capable_lines_app data pid = []"
    using B(1,2) by (simp_all add: already_planned_app_core capable_lines_app_core)
  from app_branch_B[where to_datetime = to_datetime, OF assms c]
  obtain a where "simulate_request to_datetime pid q s data = Inr a"
    "\<not> can_fulfill a"
    "allocated_total a = already_planned_cases_app data pid due"
    "remaining a = q - already_planned_cases_app data pid due"
    "plan_rows a = covering_rows_app data pid due"
    "capacity_blockers a = [Text ''No capable line found'']"
    "material_blockers a = [Text ''No line can run this product'']"
    by blast
  with B show ?thesis by (simp add: covering_rows_app_core already_planned_app_core)
next
  case (C r)
  have c: "\<not> q \<le> already_planned_cases_app data pid due" "capable_lines_app data pid \<noteq> []"
    "capacity_shortfall_app data pid due q = 0" "material_check_app data pid due q = []"
    using C(1,2,3,4)
    by (simp_all add: already_planned_app_core capable_lines_app_core capacity_shortfall_app_core
        material_check_app_empty)
  from app_branch_C[where to_datetime = to_datetime, OF assms c]
  obtain a where "simulate_request to_datetime pid q s data = Inr a"
    "can_fulfill a" "allocated_total a = q" "remaining a = 0"
    "plan_rows a = covering_rows_app data pid due @ extra_plan_rows_app data pid due q"
    "capacity_blockers a = []" "material_blockers a = []"
    by blast
  with C show ?thesis by (simp add: covering_rows_app_core extra_plan_rows_app_core)
next
  case (D r)
  have c: "\<not> q \<le> already_planned_cases_app data pid due" "capable_lines_app data pid \<noteq> []"
    "\<not> (capacity_shortfall_app data pid due q = 0 \<and> material_check_app data pid due q = [])"
    using D(1,2,3)
    by (simp_all add: already_planned_app_core capable_lines_app_core capacity_shortfall_app_core
        material_check_app_empty)
  from app_branch_D[where to_datetime = to_datetime, OF assms c]
  obtain a where a: "simulate_request to_datetime pid q s data = Inr a"
    "\<not> can_fulfill a"
    "allocated_total a
         = already_planned_cases_app data pid due + feasible_new_cases_app data pid due q"
    "remaining a
         = max (q - (already_planned_cases_app data pid due + feasible_new_cases_app data pid due q)) 0"
    "plan_rows a = covering_rows_app data pid due @
         (if feasible_new_cases_app data pid due q > 0 \<and> material_check_app data pid due q = []
          then extra_plan_rows_app data pid due q else [])"
    "capacity_blockers a = (if capacity_shortfall_app data pid due q > 0
                              then [ShortCases (capacity_shortfall_app data pid due q) due] else [])"
    "material_blockers a = material_check_app data pid due q"
    by blast
  have st: "status r \<noteq> Full" using D(6) by simp
  show ?thesis
    using D(2,4,7,8,9,10,11) a st
    by (simp add: covering_rows_app_core extra_plan_rows_app_core already_planned_app_core
        feasible_new_cases_app_core capacity_shortfall_app_core material_check_app_empty
        material_check_app_length)
qed

theorem two_copies_agree_witness:
  "sample_to_datetime ''2025-11-03'' = Some 739558
   \<and> (\<exists>r a. simulate_request_core sample_to_datetime ''COLA_330'' 1200 ''2025-11-03'' ''North DC''
                sample_data = Inr r
          \<and> simulate_request sample_to_datetime ''COLA_330'' 1200 ''2025-11-03'' sample_data = Inr a
          \<and> allocated_total a = covered_qty_on_requested_date r
          \<and> remaining a = remaining_qty r
          \<and> plan_rows a = existing_orders_used r
          \<and> length (capacity_blockers a) = length (capacity_notes r)
          \<and> (can_fulfill a \<longleftrightarrow> status r = Full)
          \<and> length (material_blockers a) = length (material_notes r))"
proof -
  have h: "sample_to_datetime ''2025-11-03'' = Some 739558"
    by (simp add: sample_to_datetime_def)
  from two_copies_agree[where to_datetime = sample_to_datetime and dc = "''North DC''"
      and pid = "''COLA_330''" and q = 1200 and data = sample_data, OF h]
  show ?thesis using h by (simp add: sample_capable)
qed

theorem two_copies_agree_counterexample:
  "simulate_request sample_to_datetime ''TEA_1L'' 50 ''2025-11-03'' sample_data =
     Inr \<lparr>can_fulfill = False, allocated_total = 0, remaining = 50, plan_rows = [],
          material_blockers = [Text ''No line can run this product''],
          capacity_blockers = [Text ''No capable line found'']\<rparr>
   \<and> simulate_request_core sample_to_datetime ''TEA_1L'' 50 ''2025-11-03'' ''North DC'' sample_data =
     Inr \<lparr>sku = ''TEA_1L'', product_name = ''TEA_1L'', dc_name = ''North DC'',
          requested_date = 739558, requested_qty = 50, status = No,
          covered_qty_on_requested_date = 0, remaining_qty = 50,
          next_available_date = None, next_available_additional_qty = 0,
          existing_orders_used = [],
          capacity_notes = [Text ''No capable line for this SKU''], material_notes = []\<rparr>
   \<and> length (material_blockers (projr
        (simulate_request sample_to_datetime ''TEA_1L'' 50 ''2025-11-03'' sample_data)))
     \<noteq> length (material_notes (projr
        (simulate_request_core sample_to_datetime ''TEA_1L'' 50 ''2025-11-03'' ''North DC''
           sample_data)))"
  by (simp add: sample_tea_app sample_tea_core)

section \<open>Input that is not validated\<close>

lemma sample_product_name:
  "filter (\<lambda>p. p_product_id p = ''COLA_330'') (products sample_data)
     = [\<lparr>p_product_id = ''COLA_330'', p_product_name = ''Cola 330ml''\<rparr>]"
  by (simp add: sample_data_def)

lemma sample_zero_core:
  "simulate_request_core sample_to_datetime ''COLA_330'' 0 ''2025-11-03'' ''North DC'' sample_data =
     Inr \<lparr>sku = ''COLA_330'', product_name = ''Cola 330ml'', dc_name = ''North DC'',
          requested_date = 739558, requested_qty = 0, status = Full,
          covered_qty_on_requested_date = 0, remaining_qty = 0,
          next_available_date = Some 739558, next_available_additional_qty = 0,
          existing_orders_used =
            [\<lparr>pr_line_id = 1, pr_production_date = 739557, allocated_cases = 100,
              pr_source = already_planned\<rparr>],
          capacity_notes = [], material_notes = []\<rparr>"
  by (simp add: simulate_request_core_def sample_to_datetime_def sample_already
      sample_covering sample_product_name)

text \<open>
  C4 (amended). A due date string the date parser rejects ends the call with the parser's
  error, in \<^verbatim>\<open>simulate_request_core\<close> and in the endpoint that calls it. The requested
  quantity is not validated: with a date the parser accepts the call always returns a
  result, and when the quantity is at most the already planned quantity (so for every
  non-positive quantity over a schedule without negative planned quantities) the result is
  \<open>Full\<close> with the allocated total equal to the requested quantity and nothing remaining.
\<close>

theorem invalid_input:
  "(to_datetime s = None \<longrightarrow>
      simulate_request_core to_datetime pid q s dc data = Inl DateParseError
      \<and> simulate_request_api to_datetime
           \<lparr>in_sku = pid, in_qty_requested = q, in_requested_date = s, in_dc_name = dc\<rparr> data
          = Inl DateParseError)
   \<and> (to_datetime s = Some due \<longrightarrow>
        (\<exists>res. simulate_request_core to_datetime pid q s dc data = Inr res
           \<and> simulate_request_api to_datetime
                \<lparr>in_sku = pid, in_qty_requested = q, in_requested_date = s, in_dc_name = dc\<rparr> data
               = Inr res
           \<and> (q \<le> already_planned_cases_core data pid due \<longrightarrow>
                status res = Full \<and> covered_qty_on_requested_date res = q \<and> remaining_qty res = 0)))
   \<and> (q \<le> 0 \<and> (\<forall>r \<in> set (schedule data). 0 \<le> planned_qty_cases r)
        \<longrightarrow> q \<le> already_planned_cases_core data pid due)"
proof (intro conjI impI)
  assume n: "to_datetime s = None"
  then show "simulate_request_core to_datetime pid q s dc data = Inl DateParseError"
    by (rule core_parse_fail)
  then show "simulate_request_api to_datetime
           \<lparr>in_sku = pid, in_qty_requested = q, in_requested_date = s, in_dc_name = dc\<rparr> data
          = Inl DateParseError"
    by (simp add: simulate_request_api_def)
next
  assume p: "to_datetime s = Some due"
  have api: "simulate_request_api to_datetime
                \<lparr>in_sku = pid, in_qty_requested = q, in_requested_date = s, in_dc_name = dc\<rparr> data
             = simulate_request_core to_datetime pid q s dc data"
    by (simp add: simulate_request_api_def)
  from p show "\<exists>res. simulate_request_core to_datetime pid q s dc data = Inr res
           \<and> simulate_request_api to_datetime
                \<lparr>in_sku = pid, in_qty_requested = q, in_requested_date = s, in_dc_name = dc\<rparr> data
               = Inr res
           \<and> (q \<le> already_planned_cases_core data pid due \<longrightarrow>
                status res = Full \<and> covered_qty_on_requested_date res = q \<and> remaining_qty res = 0)"
  proof (cases rule: core_cases[where to_datetime = to_datetime and s = s and due = due and q = q
        and data = data and pid = pid and dc = dc])
    case (A res)
    then show ?thesis by (simp add: api)
  next
    case (B res)
    then show ?thesis by (simp add: api)
  next
    case (C res)
    then show ?thesis by (simp add: api)
  next
    case (D res)
    then show ?thesis by (simp add: api)
  qed
next
  assume "q \<le> 0 \<and> (\<forall>r \<in> set (schedule data). 0 \<le> planned_qty_cases r)"
  then have "q \<le> 0" "0 \<le> already_planned_cases_core data pid due"
    using already_planned_nonneg[of data pid due] by simp_all
  then show "q \<le> already_planned_cases_core data pid due" by simp
qed

theorem invalid_input_witness:
  "sample_to_datetime ''next Monday'' = None
   \<and> simulate_request_api sample_to_datetime
        \<lparr>in_sku = ''COLA_330'', in_qty_requested = 1200, in_requested_date = ''next Monday'',
         in_dc_name = ''North DC''\<rparr> sample_data = Inl DateParseError
   \<and> sample_to_datetime ''2025-11-03'' = Some 739558
   \<and> (-5::int) \<le> 0 \<and> filter (\<lambda>r. planned_qty_cases r < 0) (schedule sample_data) = []
   \<and> (\<exists>res. simulate_request_api sample_to_datetime
        \<lparr>in_sku = ''COLA_330'', in_qty_requested = - 5, in_requested_date = ''2025-11-03'',
         in_dc_name = ''North DC''\<rparr> sample_data = Inr res
        \<and> status res = Full \<and> covered_qty_on_requested_date res = - 5 \<and> remaining_qty res = 0)"
proof -
  have h1: "sample_to_datetime ''next Monday'' = None"
    by (simp add: sample_to_datetime_def)
  have h2: "sample_to_datetime ''2025-11-03'' = Some 739558"
    by (simp add: sample_to_datetime_def)
  have h3: "\<forall>r \<in> set (schedule sample_data). 0 \<le> planned_qty_cases r"
    by (simp add: sample_data_def)
  from invalid_input[where to_datetime = sample_to_datetime and s = "''next Monday''"
      and pid = "''COLA_330''" and q = 1200 and dc = "''North DC''" and data = sample_data] h1
  have a: "simulate_request_api sample_to_datetime
        \<lparr>in_sku = ''COLA_330'', in_qty_requested = 1200, in_requested_date = ''next Monday'',
         in_dc_name = ''North DC''\<rparr> sample_data = Inl DateParseError"
    by blast
  from invalid_input[where to_datetime = sample_to_datetime and s = "''2025-11-03''"
      and due = 739558 and pid = "''COLA_330''" and q = "- 5" and dc = "''North DC''"
      and data = sample_data] h2 h3
  have b: "\<exists>res. simulate_request_api sample_to_datetime
        \<lparr>in_sku = ''COLA_330'', in_qty_requested = - 5, in_requested_date = ''2025-11-03'',
         in_dc_name = ''North DC''\<rparr> sample_data = Inr res
        \<and> status res = Full \<and> covered_qty_on_requested_date res = - 5 \<and> remaining_qty res = 0"
    by (auto simp del: ex_simps)
  have h4: "filter (\<lambda>r. planned_qty_cases r < 0) (schedule sample_data) = []"
    by (simp add: sample_data_def)
  from a b h1 h2 h4 show ?thesis by simp
qed

theorem invalid_input_counterexample:
  "(0::int) \<le> 0
   \<and> simulate_request_api sample_to_datetime
        \<lparr>in_sku = ''COLA_330'', in_qty_requested = 0, in_requested_date = ''2025-11-03'',
         in_dc_name = ''North DC''\<rparr> sample_data =
     Inr \<lparr>sku = ''COLA_330'', product_name = ''Cola 330ml'', dc_name = ''North DC'',
          requested_date = 739558, requested_qty = 0, status = Full,
          covered_qty_on_requested_date = 0, remaining_qty = 0,
          next_available_date = Some 739558, next_available_additional_qty = 0,
          existing_orders_used =
            [\<lparr>pr_line_id = 1, pr_production_date = 739557, allocated_cases = 100,
              pr_source = already_planned\<rparr>],
          capacity_notes = [], material_notes = []\<rparr>"
  by (simp add: simulate_request_api_def sample_zero_core)

section \<open>Headroom and order of the new-plan rows\<close>

lemma scheduled_on_window:
  "d \<le> due \<Longrightarrow> scheduled_on (sched_window_core data due) lid d = scheduled_on (schedule data) lid d"
proof -
  assume d: "d \<le> due"
  have "filter (\<lambda>r. s_line_id r = lid \<and> prod_date_only r = d) (sched_window_core data due)
      = filter (\<lambda>r. s_line_id r = lid \<and> prod_date_only r = d) (schedule data)"
    unfolding sched_window_core_def filter_filter
    by (rule filter_cong) (use d in auto)
  then show ?thesis by (simp add: scheduled_on_def)
qed

lemma headroom_at_window:
  "d \<le> due \<Longrightarrow> headroom_at (lines data) (sched_window_core data due) d lid = daily_headroom data lid d"
  by (auto simp: headroom_at_def daily_headroom_def scheduled_on_window split: option.splits)

lemma window_dates:
  "d \<in> set (sort (unique (map prod_date_only (sched_window_core data due)))) \<Longrightarrow> d \<le> due"
  by (auto simp: unique_set sched_window_core_def)

lemma allocation_core_row:
  assumes "r \<in> set (fst (allocation_core data pid due need))"
  shows "pr_source r = new_plan \<and> pr_production_date r \<le> due \<and> 0 < allocated_cases r
     \<and> (\<exists>cap. line_capacity (lines data) (pr_line_id r) = Some cap
          \<and> allocated_cases r
              \<le> max (cap - scheduled_on (schedule data) (pr_line_id r) (pr_production_date r)) 0)"
proof -
  let ?W = "sched_window_core data due"
  let ?ps = "List.product (sort (unique (map prod_date_only ?W))) (capable_lines_core data pid)"
  have "r \<in> set (fst (alloc_pairs (lines data) ?W ?ps need))"
    using assms by (simp only: allocation_core_pairs)
  from alloc_pairs_rows[OF this]
  have r: "pr_source r = new_plan" "0 < allocated_cases r"
    "allocated_cases r \<le> hr (lines data) ?W (row_key r)"
    "row_key r \<in> set ?ps"
    by blast+
  from r(4) have "pr_production_date r \<in> set (sort (unique (map prod_date_only ?W)))"
    by (auto simp: row_key_def)
  then have d: "pr_production_date r \<le> due"
    by (rule window_dates)
  from r(2,3) have "0 < hr (lines data) ?W (row_key r)" by simp
  then obtain h where h: "headroom_at (lines data) ?W (pr_production_date r) (pr_line_id r) = Some h"
    "hr (lines data) ?W (row_key r) = h"
    by (auto simp: hr_def row_key_def split: option.splits)
  from h(1) d have "daily_headroom data (pr_line_id r) (pr_production_date r) = Some h"
    by (simp add: headroom_at_window)
  then obtain cap where "line_capacity (lines data) (pr_line_id r) = Some cap"
    "h = max (cap - scheduled_on (schedule data) (pr_line_id r) (pr_production_date r)) 0"
    by (auto simp: daily_headroom_def headroom_at_def split: option.splits)
  with r h d show ?thesis by simp
qed

lemma allocation_core_prefix:
  "prefix (map row_key (fst (allocation_core data pid due need))) (eligible_pairs data pid due)"
  by (simp add: allocation_core_pairs eligible_pairs_def alloc_pairs_prefix)

lemma eligible_pairs_distinct: "distinct (eligible_pairs data pid due)"
  by (simp add: eligible_pairs_def distinct_product unique_distinct capable_lines_core_def)

lemma allocation_core_distinct:
  "distinct (map row_key (fst (allocation_core data pid due need)))"
  using allocation_core_prefix[of data pid due need] eligible_pairs_distinct[of data pid due]
  by (auto simp: prefix_def)

lemma sorted_map_const: "sorted (map (\<lambda>_. a) ys)"
  by (induction ys) auto

lemma sorted_fst_product: "sorted xs \<Longrightarrow> sorted (map fst (List.product xs ys))"
  by (induction xs) (auto simp: sorted_append comp_def sorted_map_const)

lemma eligible_pairs_sorted: "sorted (map fst (eligible_pairs data pid due))"
  unfolding eligible_pairs_def
  by (rule sorted_filter) (simp add: sorted_fst_product)

lemma allocation_core_dates_sorted:
  "sorted (map pr_production_date (fst (allocation_core data pid due need)))"
proof -
  have "map pr_production_date (fst (allocation_core data pid due need))
      = map fst (map row_key (fst (allocation_core data pid due need)))"
    by (simp add: row_key_def comp_def)
  moreover have "prefix (map fst (map row_key (fst (allocation_core data pid due need))))
      (map fst (eligible_pairs data pid due))"
    by (rule map_mono_prefix) (rule allocation_core_prefix)
  ultimately show ?thesis
    using sorted_antimono_prefix eligible_pairs_sorted by metis
qed

lemma allocation_core_exhaust:
  "0 < snd (allocation_core data pid due need) \<Longrightarrow>
     map row_key (fst (allocation_core data pid due need)) = eligible_pairs data pid due"
  by (simp add: allocation_core_pairs eligible_pairs_def alloc_pairs_exhaust)

lemma scheduled_on_set_firm:
  "scheduled_on (map (\<lambda>r. r\<lparr>is_firm := g r\<rparr>) W) lid d = scheduled_on W lid d"
  by (simp add: scheduled_on_def filter_map comp_def)

lemma headroom_at_set_firm:
  "headroom_at L (map (\<lambda>r. r\<lparr>is_firm := g r\<rparr>) W) d lid = headroom_at L W d lid"
  by (simp add: headroom_at_def scheduled_on_set_firm split: option.splits)

lemma allocation_core_set_firm:
  "allocation_core (set_firm g data) pid due need = allocation_core data pid due need"
proof -
  have w: "sched_window_core (set_firm g data) due
      = map (\<lambda>r. r\<lparr>is_firm := g r\<rparr>) (sched_window_core data due)"
    by (simp add: sched_window_core_def set_firm_def filter_map comp_def)
  have h: "hr (lines data) (map (\<lambda>r. r\<lparr>is_firm := g r\<rparr>) W) = hr (lines data) W" for W
    by (rule ext) (simp add: hr_def headroom_at_set_firm)
  have a: "alloc_pairs L W' ps n = alloc_pairs L W ps n" if "hr L W' = hr L W" for L W W' ps n
    using that by (induction ps arbitrary: n) auto
  have c: "capable_lines_core (set_firm g data) pid = capable_lines_core data pid"
    by (simp add: capable_lines_core_def set_firm_def)
  have l: "lines (set_firm g data) = lines data" by (simp add: set_firm_def)
  show ?thesis
    unfolding allocation_core_pairs w c l
    by (simp add: comp_def a[OF h])
qed

lemma allocation_core_within:
  "r \<in> set (fst (allocation_core data pid due need)) \<Longrightarrow>
     is_new_plan r \<and> 0 < allocated_cases r \<and> within_headroom data r"
  using allocation_core_row[of r data pid due need]
  by (auto simp: within_headroom_def is_new_plan_def)

lemma filter_new_covering: "filter is_new_plan (covering_rows_core data pid due) = []"
  by (auto simp: filter_empty_conv is_new_plan_def dest: covering_rows_core_source)

lemma filter_new_extra:
  "filter is_new_plan (extra_plan_rows_core data pid due q) = extra_plan_rows_core data pid due q"
  by (auto simp: filter_id_conv extra_plan_rows_core_def dest: allocation_core_within)

lemma core_new_rows:
  assumes "to_datetime s = Some due"
  shows "\<exists>res. simulate_request_core to_datetime pid q s dc data = Inr res
     \<and> (filter is_new_plan (existing_orders_used res) = []
        \<or> filter is_new_plan (existing_orders_used res) = extra_plan_rows_core data pid due q)"
  using assms
proof (cases rule: core_cases[where to_datetime = to_datetime and s = s and due = due and q = q
        and data = data and pid = pid and dc = dc])
  case (A res)
  then show ?thesis by (simp add: filter_new_covering)
next
  case (B res)
  then show ?thesis by (simp add: filter_new_covering)
next
  case (C res)
  then show ?thesis by (simp add: filter_new_covering filter_new_extra)
next
  case (D res)
  then show ?thesis by (simp add: filter_new_covering filter_new_extra)
qed

lemma app_new_rows:
  assumes "to_datetime s = Some due"
  shows "\<exists>res. simulate_request to_datetime pid q s data = Inr res
     \<and> (filter is_new_plan (plan_rows res) = []
        \<or> filter is_new_plan (plan_rows res) = extra_plan_rows_app data pid due q)"
  using assms
proof (cases rule: app_cases[where to_datetime = to_datetime and s = s and due = due and q = q
        and data = data and pid = pid])
  case (A res)
  then show ?thesis by (simp add: filter_new_covering covering_rows_app_core)
next
  case (B res)
  then show ?thesis by (simp add: filter_new_covering covering_rows_app_core)
next
  case (C res)
  then show ?thesis
    by (simp add: filter_new_covering filter_new_extra covering_rows_app_core extra_plan_rows_app_core)
next
  case (D res)
  then show ?thesis
    by (simp add: filter_new_covering filter_new_extra covering_rows_app_core extra_plan_rows_app_core)
qed

text \<open>
  C5. Every new-plan row the allocation loop emits (in \<^verbatim>\<open>main.py\<close> and in \<^verbatim>\<open>app.py\<close>)
  allocates a positive number of cases that is at most
  \<^verbatim>\<open>max(daily_capacity_cases - cases scheduled on that line and date, 0)\<close>, where the scheduled
  cases are summed over the whole schedule, all products, firm or not; no two new-plan rows
  have the same (date, line); replacing the \<^verbatim>\<open>is_firm\<close> flags of the schedule by any other
  flags leaves the new-plan rows unchanged; and the new-plan rows of a returned plan are
  either none or exactly the rows the loop emitted.
\<close>

theorem headroom_respected:
  "(\<forall>r \<in> set (extra_plan_rows_core data pid due q).
        is_new_plan r \<and> 0 < allocated_cases r \<and> within_headroom data r)
   \<and> distinct (map row_key (extra_plan_rows_core data pid due q))
   \<and> (\<forall>r \<in> set (extra_plan_rows_app data pid due q).
        is_new_plan r \<and> 0 < allocated_cases r \<and> within_headroom data r)
   \<and> distinct (map row_key (extra_plan_rows_app data pid due q))
   \<and> extra_plan_rows_core (set_firm g data) pid due q = extra_plan_rows_core data pid due q
   \<and> extra_plan_rows_app (set_firm g data) pid due q = extra_plan_rows_app data pid due q
   \<and> (to_datetime s = Some due \<longrightarrow>
        (\<exists>res. simulate_request_core to_datetime pid q s dc data = Inr res
           \<and> (filter is_new_plan (existing_orders_used res) = []
              \<or> filter is_new_plan (existing_orders_used res) = extra_plan_rows_core data pid due q))
      \<and> (\<exists>res. simulate_request to_datetime pid q s data = Inr res
           \<and> (filter is_new_plan (plan_rows res) = []
              \<or> filter is_new_plan (plan_rows res) = extra_plan_rows_app data pid due q)))"
proof -
  have a: "\<forall>r \<in> set (extra_plan_rows_core data pid due q).
        is_new_plan r \<and> 0 < allocated_cases r \<and> within_headroom data r"
    unfolding extra_plan_rows_core_def using allocation_core_within by blast
  have b: "distinct (map row_key (extra_plan_rows_core data pid due q))"
    unfolding extra_plan_rows_core_def by (rule allocation_core_distinct)
  have w: "sched_window_core (set_firm g data) due
      = map (\<lambda>r. r\<lparr>is_firm := g r\<rparr>) (sched_window_core data due)"
    by (simp add: sched_window_core_def set_firm_def filter_map comp_def)
  have "already_planned_cases_core (set_firm g data) pid due = already_planned_cases_core data pid due"
    by (simp add: already_planned_cases_core_def sku_sched_core_def w filter_map comp_def)
  then have c: "extra_plan_rows_core (set_firm g data) pid due q = extra_plan_rows_core data pid due q"
    by (simp add: extra_plan_rows_core_def need_after_plan_core_def allocation_core_set_firm)
  from a b c core_new_rows[where to_datetime = to_datetime and s = s and due = due]
    app_new_rows[where to_datetime = to_datetime and s = s and due = due]
  show ?thesis
    unfolding extra_plan_rows_app_core by blast
qed

lemma sample_extra_rows:
  "extra_plan_rows_core sample_data ''COLA_330'' 739558 1200 =
   [\<lparr>pr_line_id = 2, pr_production_date = 739557, allocated_cases = 500, pr_source = new_plan\<rparr>,
    \<lparr>pr_line_id = 1, pr_production_date = 739557, allocated_cases = 600, pr_source = new_plan\<rparr>]"
  by (simp add: extra_plan_rows_core_def need_after_plan_core_def sample_already sample_allocation)

theorem headroom_respected_witness:
  "sample_to_datetime ''2025-11-03'' = Some 739558
   \<and> extra_plan_rows_core sample_data ''COLA_330'' 739558 1200 =
       [\<lparr>pr_line_id = 2, pr_production_date = 739557, allocated_cases = 500, pr_source = new_plan\<rparr>,
        \<lparr>pr_line_id = 1, pr_production_date = 739557, allocated_cases = 600, pr_source = new_plan\<rparr>]
   \<and> within_headroom sample_data
        \<lparr>pr_line_id = 2, pr_production_date = 739557, allocated_cases = 500, pr_source = new_plan\<rparr>
   \<and> within_headroom sample_data
        \<lparr>pr_line_id = 1, pr_production_date = 739557, allocated_cases = 600, pr_source = new_plan\<rparr>
   \<and> line_capacity (lines sample_data) 1 = Some 1000
   \<and> scheduled_on (schedule sample_data) 1 739557 = 100"
proof -
  have h: "sample_to_datetime ''2025-11-03'' = Some 739558"
    by (simp add: sample_to_datetime_def)
  have c: "line_capacity (lines sample_data) 1 = Some 1000"
    "scheduled_on (schedule sample_data) 1 739557 = 100"
    by (simp_all add: line_capacity_def scheduled_on_def sample_data_def)
  from headroom_respected[where data = sample_data and pid = "''COLA_330''" and due = 739558
      and q = 1200 and to_datetime = sample_to_datetime and s = "''2025-11-03''"]
  have "\<forall>r \<in> set (extra_plan_rows_core sample_data ''COLA_330'' 739558 1200).
        is_new_plan r \<and> 0 < allocated_cases r \<and> within_headroom sample_data r"
    by blast
  then show ?thesis using h c by (simp add: sample_extra_rows)
qed

lemma sample_allocation_4900:
  "allocation_core sample_data ''COLA_330'' 739558 4900 =
   ([\<lparr>pr_line_id = 2, pr_production_date = 739557, allocated_cases = 500, pr_source = new_plan\<rparr>,
     \<lparr>pr_line_id = 1, pr_production_date = 739557, allocated_cases = 900, pr_source = new_plan\<rparr>,
     \<lparr>pr_line_id = 2, pr_production_date = 739558, allocated_cases = 500, pr_source = new_plan\<rparr>,
     \<lparr>pr_line_id = 1, pr_production_date = 739558, allocated_cases = 600, pr_source = new_plan\<rparr>],
    2400)"
  by (simp add: allocation_core_def sample_window sample_capable) (simp add: sample_data_def)

text \<open>
  C3 (amended). The capable lines are the line ids of the capability rows of the product,
  deduplicated in order of first appearance; they are not sorted by line id. The loop visits
  the distinct dates of the window in ascending order and, within a date, the capable lines
  in that order: the (date, line) pairs of the new-plan rows are a prefix of the eligible
  pairs listed date by date, and all of them when some need is left. So the new-plan rows
  are in ascending date order and, within a date, in the order of the capable lines.
\<close>

theorem allocation_order:
  "capable_lines_core data pid
     = unique (map c_line_id (filter (\<lambda>c. c_product_id c = pid) (capability data)))
   \<and> prefix (map row_key (fst (allocation_core data pid due need))) (eligible_pairs data pid due)
   \<and> (0 < snd (allocation_core data pid due need) \<longrightarrow>
        map row_key (fst (allocation_core data pid due need)) = eligible_pairs data pid due)
   \<and> sorted (map pr_production_date (fst (allocation_core data pid due need)))
   \<and> capable_lines_app data pid = capable_lines_core data pid
   \<and> allocation_app data pid due need = allocation_core data pid due need"
  using allocation_core_prefix[of data pid due need] allocation_core_exhaust[of data pid due need]
    allocation_core_dates_sorted[of data pid due need]
  by (simp add: capable_lines_core_def capable_lines_app_core[unfolded capable_lines_core_def]
      allocation_app_core)

theorem allocation_order_witness:
  "0 < snd (allocation_core sample_data ''COLA_330'' 739558 4900)
   \<and> capable_lines_core sample_data ''COLA_330'' = [2, 1]
   \<and> map row_key (fst (allocation_core sample_data ''COLA_330'' 739558 4900))
       = [(739557, 2), (739557, 1), (739558, 2), (739558, 1)]
   \<and> eligible_pairs sample_data ''COLA_330'' 739558
       = [(739557, 2), (739557, 1), (739558, 2), (739558, 1)]"
proof -
  have h: "0 < snd (allocation_core sample_data ''COLA_330'' 739558 4900)"
    by (simp add: sample_allocation_4900)
  have k: "map row_key (fst (allocation_core sample_data ''COLA_330'' 739558 4900))
       = [(739557, 2), (739557, 1), (739558, 2), (739558, 1)]"
    by (simp add: sample_allocation_4900 row_key_def)
  from allocation_order[of sample_data "''COLA_330''" 739558 4900] h
  have "map row_key (fst (allocation_core sample_data ''COLA_330'' 739558 4900))
      = eligible_pairs sample_data ''COLA_330'' 739558"
    by blast
  with h k show ?thesis by (simp add: sample_capable)
qed

lemma sample_material_ok: "mat_blockers_core sample_data ''COLA_330'' 1100 = []"
  by (simp add: mat_blockers_core_def merge_left_def sample_data_def float64_eval)

lemma sample_core_1200:
  "simulate_request_core sample_to_datetime ''COLA_330'' 1200 ''2025-11-03'' ''North DC'' sample_data =
     Inr \<lparr>sku = ''COLA_330'', product_name = ''Cola 330ml'', dc_name = ''North DC'',
          requested_date = 739558, requested_qty = 1200, status = Full,
          covered_qty_on_requested_date = 1200, remaining_qty = 0,
          next_available_date = Some 739558, next_available_additional_qty = 1200,
          existing_orders_used =
            [\<lparr>pr_line_id = 1, pr_production_date = 739557, allocated_cases = 100,
              pr_source = already_planned\<rparr>,
             \<lparr>pr_line_id = 2, pr_production_date = 739557, allocated_cases = 500,
              pr_source = new_plan\<rparr>,
             \<lparr>pr_line_id = 1, pr_production_date = 739557, allocated_cases = 600,
              pr_source = new_plan\<rparr>],
          capacity_notes = [], material_notes = []\<rparr>"
  by (simp add: simulate_request_core_def sample_to_datetime_def sample_already sample_covering
      sample_capable sample_allocation sample_material_ok sample_product_name)

theorem allocation_order_counterexample:
  "capable_lines_core sample_data ''COLA_330'' = [2, 1]
   \<and> \<not> sorted (capable_lines_core sample_data ''COLA_330'')
   \<and> map row_key (fst (allocation_core sample_data ''COLA_330'' 739558 1100))
       = [(739557, 2), (739557, 1)]
   \<and> \<not> sorted (map row_key (fst (allocation_core sample_data ''COLA_330'' 739558 1100)))
   \<and> existing_orders_used (projr (simulate_request_core sample_to_datetime ''COLA_330'' 1200
         ''2025-11-03'' ''North DC'' sample_data)) =
        [\<lparr>pr_line_id = 1, pr_production_date = 739557, allocated_cases = 100,
          pr_source = already_planned\<rparr>,
         \<lparr>pr_line_id = 2, pr_production_date = 739557, allocated_cases = 500,
          pr_source = new_plan\<rparr>,
         \<lparr>pr_line_id = 1, pr_production_date = 739557, allocated_cases = 600,
          pr_source = new_plan\<rparr>]"
  by (simp add: sample_capable sample_allocation row_key_def sample_core_1200)

section \<open>The material check\<close>

lemma shortage_notes_core_filter:
  "shortage_notes_core n merged acc = acc @ map (shortage_note n) (filter (is_short n) merged)"
  by (induction n merged acc rule: shortage_notes_core.induct)
     (auto simp: Let_def is_short_def shortage_note_def on_hand_or_zero_def to_float64_needed_qty
        needed_qty_def[symmetric])

lemma mat_blockers_core_cases:
  "mat_blockers_core data pid n =
     (if n \<le> 0 then []
      else if filter (\<lambda>b. b_product_id b = pid) (bom data) = []
           then [Text ''No BOM defined for this SKU'']
           else map (shortage_note n) (filter (is_short n)
                  (merge_left (filter (\<lambda>b. b_product_id b = pid) (bom data)) (inventory data))))"
  by (simp add: mat_blockers_core_def shortage_notes_core_filter Let_def)


lemma merge_left_fst:
  assumes "m \<in> set (merge_left bs inv_df)"
  shows "fst m \<in> set bs"
proof -
  from assms obtain b where b: "b \<in> set bs"
    and m: "m \<in> set (case filter (\<lambda>i. i_material_id i = b_material_id b) inv_df of
                         [] \<Rightarrow> [(b, None)]
                       | x # xs \<Rightarrow> map (\<lambda>i. (b, on_hand_qty i)) (x # xs))"
    by (auto simp: merge_left_def)
  from m have "fst m = b"
    by (cases "filter (\<lambda>i. i_material_id i = b_material_id b) inv_df") auto
  with b show ?thesis by simp
qed












section \<open>Monotonicity of the remaining quantity\<close>

lemma allocation_core_bounds:
  "0 \<le> need \<Longrightarrow> 0 \<le> snd (allocation_core data pid due need)
      \<and> snd (allocation_core data pid due need) \<le> need"
  unfolding allocation_core_pairs by (rule alloc_pairs_bounds)

lemma allocation_core_mono:
  "n1 \<le> n2 \<Longrightarrow> snd (allocation_core data pid due n1) \<le> snd (allocation_core data pid due n2)
     \<and> n1 - snd (allocation_core data pid due n1) \<le> n2 - snd (allocation_core data pid due n2)"
  unfolding allocation_core_pairs by (rule alloc_pairs_mono)

lemma core_remaining:
  assumes "to_datetime s = Some due"
  shows "\<exists>res. simulate_request_core to_datetime pid q s dc data = Inr res
     \<and> remaining_qty res = remaining_of data pid due q"
  using assms
proof (cases rule: core_cases[where to_datetime = to_datetime and s = s and due = due and q = q
        and data = data and pid = pid and dc = dc])
  case (A res)
  then show ?thesis by (simp add: remaining_of_def)
next
  case (B res)
  then show ?thesis by (simp add: remaining_of_def)
next
  case (C res)
  have "0 \<le> need_after_plan_core data pid due q"
    using C(1) by (simp add: need_after_plan_core_def)
  from allocation_core_bounds[OF this, of data pid due] C(3)
  have "snd (allocation_core data pid due (need_after_plan_core data pid due q)) = 0"
    by (simp add: capacity_shortfall_core_def new_capacity_cases_core_def need_after_plan_core_def)
  with C show ?thesis by (simp add: remaining_of_def)
next
  case (D res)
  have n: "0 \<le> need_after_plan_core data pid due q"
    using D(1) by (simp add: need_after_plan_core_def)
  show ?thesis
  proof (cases "material_check_core data pid due q = []")
    case True
    from allocation_core_bounds[OF n, of data pid due] True D
    show ?thesis
      by (simp add: remaining_of_def feasible_new_cases_core_def new_capacity_cases_core_def
          need_after_plan_core_def)
  next
    case False
    with D show ?thesis
      by (simp add: remaining_of_def feasible_new_cases_core_def)
  qed
qed

lemma app_remaining:
  assumes "to_datetime s = Some due"
  shows "\<exists>res. simulate_request to_datetime pid q s data = Inr res
     \<and> remaining res = remaining_of data pid due q"
  using assms
proof (cases rule: app_cases[where to_datetime = to_datetime and s = s and due = due and q = q
        and data = data and pid = pid])
  case (A res)
  then show ?thesis by (simp add: remaining_of_def already_planned_app_core)
next
  case (B res)
  then show ?thesis
    by (simp add: remaining_of_def already_planned_app_core capable_lines_app_core)
next
  case (C res)
  have "0 \<le> need_after_plan_core data pid due q"
    using C(1) by (simp add: need_after_plan_core_def already_planned_app_core)
  from allocation_core_bounds[OF this, of data pid due] C(3)
  have "snd (allocation_core data pid due (need_after_plan_core data pid due q)) = 0"
    by (simp add: capacity_shortfall_app_core capacity_shortfall_core_def
        new_capacity_cases_core_def need_after_plan_core_def)
  with C show ?thesis
    by (simp add: remaining_of_def already_planned_app_core capable_lines_app_core
        material_check_app_empty)
next
  case (D res)
  have n: "0 \<le> need_after_plan_core data pid due q"
    using D(1) by (simp add: need_after_plan_core_def already_planned_app_core)
  show ?thesis
  proof (cases "material_check_core data pid due q = []")
    case True
    from allocation_core_bounds[OF n, of data pid due] True D
    show ?thesis
      by (simp add: remaining_of_def feasible_new_cases_app_core feasible_new_cases_core_def
          new_capacity_cases_core_def need_after_plan_core_def already_planned_app_core
          capable_lines_app_core)
  next
    case False
    with D show ?thesis
      by (simp add: remaining_of_def feasible_new_cases_app_core feasible_new_cases_core_def
          already_planned_app_core capable_lines_app_core)
  qed
qed

lemma is_short_mono:
  assumes "0 \<le> qty_per_case (fst m)" "n1 \<le> n2" "is_short n1 m"
  shows "is_short n2 m"
proof -
  have "0 \<le> to_float64 (qty_per_case (fst m))"
    using assms(1) by (rule to_float64_nonneg)
  moreover have "float64_of_int n1 \<le> float64_of_int n2"
    unfolding float64_of_int_def using assms(2) by (intro to_float64_mono) simp
  ultimately have "to_float64 (qty_per_case (fst m)) * float64_of_int n1
      \<le> to_float64 (qty_per_case (fst m)) * float64_of_int n2"
    by (intro mult_left_mono)
  then have "needed_qty n1 (fst m) \<le> needed_qty n2 (fst m)"
    unfolding needed_qty_def float64_mul_def by (rule to_float64_mono)
  with assms(3) show ?thesis by (simp add: is_short_def)
qed

lemma mat_blockers_core_mono:
  assumes "bom_nonneg data pid" "0 < n1" "n1 \<le> n2" "mat_blockers_core data pid n1 \<noteq> []"
  shows "mat_blockers_core data pid n2 \<noteq> []"
proof (cases "filter (\<lambda>b. b_product_id b = pid) (bom data) = []")
  case True
  with assms(2,3) show ?thesis by (simp add: mat_blockers_core_cases)
next
  case False
  define merged where
    "merged = merge_left (filter (\<lambda>b. b_product_id b = pid) (bom data)) (inventory data)"
  have e: "mat_blockers_core data pid n = map (shortage_note n) (filter (is_short n) merged)"
    if "0 < n" for n
    unfolding mat_blockers_core_cases merged_def using that False by simp
  from assms(4) e[OF assms(2)] have "filter (is_short n1) merged \<noteq> []" by simp
  then obtain m where m: "m \<in> set merged" "is_short n1 m"
    by (auto simp: filter_empty_conv)
  from m(1) have "fst m \<in> set (filter (\<lambda>b. b_product_id b = pid) (bom data))"
    unfolding merged_def by (rule merge_left_fst)
  with assms(1) have "0 \<le> qty_per_case (fst m)"
    unfolding bom_nonneg_def list_all_iff by blast
  from is_short_mono[OF this assms(3) m(2)] m(1) have "filter (is_short n2) merged \<noteq> []"
    by (auto simp: filter_empty_conv)
  moreover have "0 < n2" using assms(2,3) by simp
  ultimately show ?thesis by (simp add: e)
qed

lemma remaining_of_mono:
  assumes "bom_nonneg data pid" "q1 \<le> q2"
  shows "remaining_of data pid due q1 \<le> remaining_of data pid due q2"
proof -
  let ?A = "already_planned_cases_core data pid due"
  let ?r = "\<lambda>q. snd (allocation_core data pid due (need_after_plan_core data pid due q))"
  have nonneg: "0 \<le> remaining_of data pid due q" for q
    using allocation_core_bounds[of "need_after_plan_core data pid due q" data pid due]
    by (auto simp: remaining_of_def need_after_plan_core_def)
  show ?thesis
  proof (cases "q1 \<le> ?A")
    case True
    then have "remaining_of data pid due q1 = 0" by (simp add: remaining_of_def)
    with nonneg[of q2] show ?thesis by simp
  next
    case False
    with assms(2) have q: "\<not> q1 \<le> ?A" "\<not> q2 \<le> ?A" by auto
    have need: "need_after_plan_core data pid due q1 \<le> need_after_plan_core data pid due q2"
      "0 \<le> need_after_plan_core data pid due q1" "0 \<le> need_after_plan_core data pid due q2"
      using q assms(2) by (simp_all add: need_after_plan_core_def)
    note mono = allocation_core_mono[OF need(1), of data pid due]
    note b2 = allocation_core_bounds[OF need(3), of data pid due]
    show ?thesis
    proof (cases "capable_lines_core data pid = []")
      case True
      with q assms(2) show ?thesis by (simp add: remaining_of_def)
    next
      case cl: False
      show ?thesis
      proof (cases "material_check_core data pid due q1 = []")
        case True
        then have "remaining_of data pid due q1 = ?r q1"
          using q cl by (simp add: remaining_of_def)
        moreover have "?r q1 \<le> remaining_of data pid due q2"
          using mono b2 q cl by (auto simp: remaining_of_def need_after_plan_core_def)
        ultimately show ?thesis by simp
      next
        case False
        then have pos: "0 < new_capacity_cases_core data pid due q1"
          by (auto simp: material_check_core_def mat_blockers_core_def split: if_splits)
        have le: "new_capacity_cases_core data pid due q1 \<le> new_capacity_cases_core data pid due q2"
          using mono by (simp add: new_capacity_cases_core_def)
        from mat_blockers_core_mono[OF assms(1) pos le] False
        have "material_check_core data pid due q2 \<noteq> []"
          by (simp add: material_check_core_def)
        with False q cl assms(2) show ?thesis by (simp add: remaining_of_def)
      qed
    qed
  qed
qed

text \<open>
  C8 (amended). For a fixed snapshot in which no BOM line of the product has a negative
  quantity per case, a fixed product, due date and dc name, and positive quantities
  \<open>q1 \<le> q2\<close>, both simulators return a result for each quantity and the remaining quantity
  for \<open>q2\<close> is at least the remaining quantity for \<open>q1\<close>.
\<close>

theorem remaining_monotone:
  assumes "to_datetime s = Some due" and "0 < q1" and "q1 \<le> q2" and "bom_nonneg data pid"
  shows "(\<exists>r1 r2. simulate_request_core to_datetime pid q1 s dc data = Inr r1
            \<and> simulate_request_core to_datetime pid q2 s dc data = Inr r2
            \<and> remaining_qty r1 \<le> remaining_qty r2)
       \<and> (\<exists>r1 r2. simulate_request to_datetime pid q1 s data = Inr r1
            \<and> simulate_request to_datetime pid q2 s data = Inr r2
            \<and> remaining r1 \<le> remaining r2)"
proof -
  note m = remaining_of_mono[OF assms(4,3), of due]
  from core_remaining[where to_datetime = to_datetime, OF assms(1), of pid q1 dc data]
    core_remaining[where to_datetime = to_datetime, OF assms(1), of pid q2 dc data] m
  have c: "\<exists>r1 r2. simulate_request_core to_datetime pid q1 s dc data = Inr r1
            \<and> simulate_request_core to_datetime pid q2 s dc data = Inr r2
            \<and> remaining_qty r1 \<le> remaining_qty r2"
    by auto
  from app_remaining[where to_datetime = to_datetime, OF assms(1), of pid q1 data]
    app_remaining[where to_datetime = to_datetime, OF assms(1), of pid q2 data] m
  have a: "\<exists>r1 r2. simulate_request to_datetime pid q1 s data = Inr r1
            \<and> simulate_request to_datetime pid q2 s data = Inr r2
            \<and> remaining r1 \<le> remaining r2"
    by auto
  from c a show ?thesis by simp
qed

lemma neg_window: "sched_window_core sample_data_negative_bom 739558 = schedule sample_data_negative_bom"
  by (simp add: sched_window_core_def sample_data_negative_bom_def)

lemma neg_already: "already_planned_cases_core sample_data_negative_bom ''COLA_330'' 739558 = 0"
  by (simp add: already_planned_cases_core_def sku_sched_core_def neg_window)
     (simp add: sample_data_negative_bom_def)

lemma neg_covering: "covering_rows_core sample_data_negative_bom ''COLA_330'' 739558 = []"
  by (simp add: covering_rows_core_def sku_sched_core_def neg_window)
     (simp add: sample_data_negative_bom_def)

lemma neg_capable: "capable_lines_core sample_data_negative_bom ''COLA_330'' = [1]"
  by (simp add: capable_lines_core_def sample_data_negative_bom_def)

lemma neg_allocation_3:
  "allocation_core sample_data_negative_bom ''COLA_330'' 739558 3 =
   ([\<lparr>pr_line_id = 1, pr_production_date = 739558, allocated_cases = 3, pr_source = new_plan\<rparr>], 0)"
  by (simp add: allocation_core_def neg_window neg_capable) (simp add: sample_data_negative_bom_def)

lemma neg_allocation_10:
  "allocation_core sample_data_negative_bom ''COLA_330'' 739558 10 =
   ([\<lparr>pr_line_id = 1, pr_production_date = 739558, allocated_cases = 10, pr_source = new_plan\<rparr>], 0)"
  by (simp add: allocation_core_def neg_window neg_capable) (simp add: sample_data_negative_bom_def)

lemma neg_mat_3:
  "mat_blockers_core sample_data_negative_bom ''COLA_330'' 3 = [ShortBy ''Sugar'' 2 None]"
  by (simp add: mat_blockers_core_def merge_left_def sample_data_negative_bom_def float64_eval)

lemma neg_mat_10: "mat_blockers_core sample_data_negative_bom ''COLA_330'' 10 = []"
  by (simp add: mat_blockers_core_def merge_left_def sample_data_negative_bom_def float64_eval)

lemma neg_product:
  "filter (\<lambda>p. p_product_id p = ''COLA_330'') (products sample_data_negative_bom)
     = [\<lparr>p_product_id = ''COLA_330'', p_product_name = ''Cola 330ml''\<rparr>]"
  by (simp add: sample_data_negative_bom_def)

lemma neg_core_3:
  "simulate_request_core sample_to_datetime ''COLA_330'' 3 ''2025-11-03'' ''North DC''
     sample_data_negative_bom =
     Inr \<lparr>sku = ''COLA_330'', product_name = ''Cola 330ml'', dc_name = ''North DC'',
          requested_date = 739558, requested_qty = 3, status = No,
          covered_qty_on_requested_date = 0, remaining_qty = 3,
          next_available_date = Some 739558, next_available_additional_qty = 0,
          existing_orders_used = [],
          capacity_notes = [], material_notes = [ShortBy ''Sugar'' 2 None]\<rparr>"
  by (simp add: simulate_request_core_def sample_to_datetime_def neg_already neg_covering
      neg_capable neg_allocation_3 neg_mat_3 neg_product)

lemma neg_core_10:
  "simulate_request_core sample_to_datetime ''COLA_330'' 10 ''2025-11-03'' ''North DC''
     sample_data_negative_bom =
     Inr \<lparr>sku = ''COLA_330'', product_name = ''Cola 330ml'', dc_name = ''North DC'',
          requested_date = 739558, requested_qty = 10, status = Full,
          covered_qty_on_requested_date = 10, remaining_qty = 0,
          next_available_date = Some 739558, next_available_additional_qty = 10,
          existing_orders_used =
            [\<lparr>pr_line_id = 1, pr_production_date = 739558, allocated_cases = 10,
              pr_source = new_plan\<rparr>],
          capacity_notes = [], material_notes = []\<rparr>"
  by (simp add: simulate_request_core_def sample_to_datetime_def neg_already neg_covering
      neg_capable neg_allocation_10 neg_mat_10 neg_product)

theorem remaining_monotone_counterexample:
  "(0::int) < 3 \<and> (3::int) \<le> 10
   \<and> simulate_request_core sample_to_datetime ''COLA_330'' 3 ''2025-11-03'' ''North DC''
       sample_data_negative_bom =
       Inr \<lparr>sku = ''COLA_330'', product_name = ''Cola 330ml'', dc_name = ''North DC'',
            requested_date = 739558, requested_qty = 3, status = No,
            covered_qty_on_requested_date = 0, remaining_qty = 3,
            next_available_date = Some 739558, next_available_additional_qty = 0,
            existing_orders_used = [],
            capacity_notes = [], material_notes = [ShortBy ''Sugar'' 2 None]\<rparr>
   \<and> simulate_request_core sample_to_datetime ''COLA_330'' 10 ''2025-11-03'' ''North DC''
       sample_data_negative_bom =
       Inr \<lparr>sku = ''COLA_330'', product_name = ''Cola 330ml'', dc_name = ''North DC'',
            requested_date = 739558, requested_qty = 10, status = Full,
            covered_qty_on_requested_date = 10, remaining_qty = 0,
            next_available_date = Some 739558, next_available_additional_qty = 10,
            existing_orders_used =
              [\<lparr>pr_line_id = 1, pr_production_date = 739558, allocated_cases = 10,
                pr_source = new_plan\<rparr>],
            capacity_notes = [], material_notes = []\<rparr>
   \<and> \<not> remaining_qty (projr (simulate_request_core sample_to_datetime ''COLA_330'' 3
          ''2025-11-03'' ''North DC'' sample_data_negative_bom))
        \<le> remaining_qty (projr (simulate_request_core sample_to_datetime ''COLA_330'' 10
          ''2025-11-03'' ''North DC'' sample_data_negative_bom))"
  by (simp add: neg_core_3 neg_core_10)

theorem remaining_monotone_witness:
  "sample_to_datetime ''2025-11-03'' = Some 739558 \<and> (0::int) < 1200 \<and> (1200::int) \<le> 5000
   \<and> bom_nonneg sample_data ''COLA_330''
   \<and> (\<exists>r1 r2. simulate_request_core sample_to_datetime ''COLA_330'' 1200 ''2025-11-03'' ''North DC''
                 sample_data = Inr r1
            \<and> simulate_request_core sample_to_datetime ''COLA_330'' 5000 ''2025-11-03'' ''North DC''
                 sample_data = Inr r2
            \<and> remaining_qty r1 \<le> remaining_qty r2)
   \<and> (\<exists>r1 r2. simulate_request sample_to_datetime ''COLA_330'' 1200 ''2025-11-03'' sample_data = Inr r1
            \<and> simulate_request sample_to_datetime ''COLA_330'' 5000 ''2025-11-03'' sample_data = Inr r2
            \<and> remaining r1 \<le> remaining r2)"
proof -
  have h1: "sample_to_datetime ''2025-11-03'' = Some 739558"
    by (simp add: sample_to_datetime_def)
  have h2: "(0::int) < 1200" "(1200::int) \<le> 5000" by simp_all
  have h3: "bom_nonneg sample_data ''COLA_330''"
    by (simp add: bom_nonneg_def sample_data_def)
  from remaining_monotone[where to_datetime = sample_to_datetime and dc = "''North DC''",
      OF h1 h2 h3] h1 h2 h3
  show ?thesis by blast
qed

end
